theory Spec2Isabelle
  imports Complex_Main "HOL-Library.Char_ord" "HOL-Library.List_Lexorder" "HOL-Library.Sublist"
begin

section \<open>The courses report: data model\<close>

text \<open>
  The embedding follows \<^verbatim>\<open>src/pages/admin/CoursesReportPage.tsx\<close>. The three input
  collections are arrays of objects; each object type is a record with the fields the page
  reads. Identifiers and the \<^verbatim>\<open>type\<close>/\<^verbatim>\<open>status\<close> tags are strings, compared with
  \<^verbatim>\<open>===\<close>. A transaction's \<^verbatim>\<open>courseId\<close> is optional: \<open>None\<close> stands for
  \<^verbatim>\<open>undefined\<close>/\<^verbatim>\<open>null\<close>. The optional dates of a course are modelled the same way.

  JavaScript numbers that carry money (\<^verbatim>\<open>monthlyFee\<close>, \<^verbatim>\<open>amount\<close>, the revenue sums) are
  IEEE 754 double-precision values, modelled by the type \<open>double\<close> of the next section.
  Counts (\<^verbatim>\<open>.length\<close>, at most \<open>2^32 - 1\<close> and so exact as doubles) are natural numbers.

  Several object types share field names (\<^verbatim>\<open>id\<close>, \<^verbatim>\<open>isActive\<close>, \<^verbatim>\<open>courseId\<close>, the
  statistics). Every field keeps its source name and is written qualified by its record:
  \<open>course.isActive\<close>, \<open>enrolment.isActive\<close>.
\<close>

section \<open>JavaScript numbers\<close>

text \<open>
  A JavaScript number is \<^verbatim>\<open>NaN\<close>, one of the two infinities, negative zero, or a finite
  value; \<open>Fin q\<close> is the finite double whose exact value is the rational \<open>q\<close>, and
  \<open>Fin 0\<close> is positive zero. Finite doubles are the rationals \<open>m * 2^u\<close> with
  \<open>\<bar>m\<bar> < 2^53\<close> and \<open>-1074 \<le> u \<le> 971\<close>.
\<close>

datatype double = NaN | PInf | NInf | NegZero | Fin rat

text \<open>Powers of two with an integer exponent, and the number of binary digits of an integer.\<close>

function pw2 :: "int \<Rightarrow> rat" where
  "pw2 n = (if n \<le> 0 then 1 else 2 * pw2 (n - 1))"
  by pat_completeness auto
termination
  by (relation "measure nat") auto

declare pw2.simps [simp del]

definition pow2 :: "int \<Rightarrow> rat" where
  "pow2 e = (if 0 \<le> e then pw2 e else 1 / pw2 (- e))"

function bitlen :: "int \<Rightarrow> int" where
  "bitlen n = (if n \<le> 0 then 0 else 1 + bitlen (n div 2))"
  by pat_completeness auto
termination
  by (relation "measure nat") auto

declare bitlen.simps [simp del]

text \<open>
  For \<open>0 < a\<close>, \<open>ilog2 a\<close> is the exponent \<open>e\<close> with \<open>2^e \<le> a < 2^(e+1)\<close>: for \<open>1 \<le> a\<close> one
  less than the number of binary digits of \<open>\<lfloor>a\<rfloor>\<close>; for \<open>a < 1\<close> the negated logarithm of
  \<open>1 / a\<close>, rounded up.
\<close>

definition ilog2 :: "rat \<Rightarrow> int" where
  "ilog2 a =
     (if 1 \<le> a then bitlen \<lfloor>a\<rfloor> - 1
      else (let k = bitlen \<lfloor>1 / a\<rfloor> - 1
            in if 1 / a = pow2 k then - k else - k - 1))"

text \<open>Rounding to the nearest integer, a tie to the even neighbour.\<close>

definition rhe :: "rat \<Rightarrow> int" where
  "rhe x =
     (let f = \<lfloor>x\<rfloor>; d = x - of_int f
      in if d < 1 / 2 then f else if 1 / 2 < d then f + 1 else if even f then f else f + 1)"

text \<open>
  \<open>round64 q\<close> is the double nearest to the exact value \<open>q\<close> (round to nearest, ties to
  even): the result of every arithmetic operation whose exact result is \<open>q\<close>, and the value
  of a numeric literal. The spacing of doubles around \<open>\<bar>q\<bar>\<close> is \<open>2^u\<close>, with
  \<open>u = e - 52\<close> for a normal number of exponent \<open>e\<close> and \<open>u = -1074\<close> below \<open>2^-1022\<close>. A
  rounded magnitude of \<open>2^1024\<close> or more is an infinity, a rounded magnitude of zero is a
  zero with the sign of \<open>q\<close>.
\<close>

definition round64 :: "rat \<Rightarrow> double" where
  "round64 q =
     (if q = 0 then Fin 0
      else
        (let a = \<bar>q\<bar>;
             e = ilog2 a;
             u = max e (- 1022) - 52;
             m = rhe (a / pow2 u)
         in if 1024 \<le> e \<or> (e = 1023 \<and> m = 9007199254740992)
            then (if 0 < q then PInf else NInf)
            else if m = 0 then (if 0 < q then Fin 0 else NegZero)
            else Fin ((if 0 < q then 1 else - 1) * of_int m * pow2 u)))"

text \<open>
  Addition \<^verbatim>\<open>x + y\<close> of two numbers: \<^verbatim>\<open>NaN\<close> is absorbing, opposite infinities give
  \<^verbatim>\<open>NaN\<close>, negative zero is neutral, and two finite values give their exact sum rounded
  (an exact sum of zero is positive zero).
\<close>

fun dadd :: "double \<Rightarrow> double \<Rightarrow> double" where
  "dadd NaN _ = NaN"
| "dadd _ NaN = NaN"
| "dadd PInf NInf = NaN"
| "dadd NInf PInf = NaN"
| "dadd PInf _ = PInf"
| "dadd _ PInf = PInf"
| "dadd NInf _ = NInf"
| "dadd _ NInf = NInf"
| "dadd NegZero y = y"
| "dadd x NegZero = x"
| "dadd (Fin a) (Fin b) = round64 (a + b)"

text \<open>\<^verbatim>\<open>Math.abs\<close>.\<close>

fun Math_abs :: "double \<Rightarrow> double" where
  "Math_abs NaN = NaN"
| "Math_abs PInf = PInf"
| "Math_abs NInf = PInf"
| "Math_abs NegZero = Fin 0"
| "Math_abs (Fin q) = Fin \<bar>q\<bar>"

text \<open>
  The exact value of a finite number (zero for the others, which have none), the comparison
  \<^verbatim>\<open>x <= y\<close>, which is false as soon as one side is \<^verbatim>\<open>NaN\<close>, and the numbers that are
  whole.
\<close>

fun num_val :: "double \<Rightarrow> rat" where
  "num_val (Fin q) = q"
| "num_val _ = 0"

fun dle :: "double \<Rightarrow> double \<Rightarrow> bool" where
  "dle NaN _ = False"
| "dle _ NaN = False"
| "dle NInf _ = True"
| "dle _ PInf = True"
| "dle PInf _ = False"
| "dle _ NInf = False"
| "dle x y = (num_val x \<le> num_val y)"

text \<open>The numbers that are at least zero and not negative zero: what a sum of magnitudes can be.\<close>

fun nonneg :: "double \<Rightarrow> bool" where
  "nonneg (Fin q) = (0 \<le> q)"
| "nonneg PInf = True"
| "nonneg _ = False"

fun whole :: "double \<Rightarrow> bool" where
  "whole (Fin q) = (of_int \<lfloor>q\<rfloor> = q)"
| "whole NegZero = True"
| "whole _ = False"

section \<open>Records\<close>

record course =
  id :: string
  code :: string
  name :: string
  provider :: string
  monthlyFee :: double
  isActive :: bool
  startDate :: "string option"
  endDate :: "string option"

record enrolment =
  id :: string
  courseId :: string
  isActive :: bool

record transaction =
  id :: string
  courseId :: "string option"
  type :: string
  status :: string
  amount :: double

text \<open>
  The object \<^verbatim>\<open>{...course, totalEnrolments, activeEnrolments, totalRevenue}\<close>: the course
  record extended by the three statistics.
\<close>

record course_stats = course +
  totalEnrolments :: nat
  activeEnrolments :: nat
  totalRevenue :: double

record overall_stats =
  totalCourses :: nat
  activeCourses :: nat
  totalEnrolments :: nat
  activeEnrolments :: nat
  totalRevenue :: double

section \<open>Providers\<close>

text \<open>
  \<^verbatim>\<open>[...new Set(xs)]\<close>: a \<^verbatim>\<open>Set\<close> keeps its elements in insertion order, and adding
  an element already present changes nothing.
\<close>

definition set_add :: "'a list \<Rightarrow> 'a \<Rightarrow> 'a list" where
  "set_add s x = (if x \<in> set s then s else s @ [x])"

definition new_Set :: "'a list \<Rightarrow> 'a list" where
  "new_Set xs = foldl set_add [] xs"

text \<open>
  \<^verbatim>\<open>uniqueProviders.sort()\<close> without a comparator orders strings by their code units,
  a proper prefix before its extensions: the lexicographic order on character lists.
\<close>

definition providers :: "course list \<Rightarrow> string list" where
  "providers courses = sort (new_Set (map course.provider courses))"

section \<open>Per-course statistics\<close>

definition stats_of :: "enrolment list \<Rightarrow> transaction list \<Rightarrow> course \<Rightarrow> course_stats" where
  "stats_of enrolments transactions c =
     (let courseEnrolments = filter (\<lambda>e. enrolment.courseId e = course.id c) enrolments;
          activeEnrolments = filter enrolment.isActive courseEnrolments;
          courseTransactions =
            filter (\<lambda>t. transaction.courseId t = Some (course.id c)) transactions;
          totalRevenue =
            foldl (\<lambda>sum t. dadd sum (Math_abs (transaction.amount t))) (Fin 0)
              (filter (\<lambda>t. transaction.type t = ''charge'' \<and> transaction.status t = ''completed'')
                 courseTransactions)
      in course.extend c
           (course_stats.fields (length courseEnrolments) (length activeEnrolments) totalRevenue))"

definition courseStats ::
  "course list \<Rightarrow> enrolment list \<Rightarrow> transaction list \<Rightarrow> course_stats list" where
  "courseStats courses enrolments transactions = map (stats_of enrolments transactions) courses"

section \<open>Filters\<close>

definition filteredCourses :: "course_stats list \<Rightarrow> string \<Rightarrow> string \<Rightarrow> course_stats list" where
  "filteredCourses stats statusFilter providerFilter =
     filter (\<lambda>c.
       let matchesStatus = (statusFilter = ''all'' \<or>
             (statusFilter = ''active'' \<and> course.isActive c) \<or>
             (statusFilter = ''inactive'' \<and> \<not> course.isActive c));
           matchesProvider = (providerFilter = ''all'' \<or> course.provider c = providerFilter)
       in matchesStatus \<and> matchesProvider) stats"

section \<open>Overall statistics\<close>

text \<open>
  \<^verbatim>\<open>&& t.courseId\<close> tests the truthiness of an optional string: \<^verbatim>\<open>undefined\<close>,
  \<^verbatim>\<open>null\<close> and the empty string are falsy.
\<close>

definition truthy :: "string option \<Rightarrow> bool" where
  "truthy v = (case v of None \<Rightarrow> False | Some s \<Rightarrow> s \<noteq> [])"

definition overallStats ::
  "course list \<Rightarrow> enrolment list \<Rightarrow> transaction list \<Rightarrow> overall_stats" where
  "overallStats courses enrolments transactions =
     (let activeCourses = length (filter course.isActive courses);
          totalEnrolments = length enrolments;
          activeEnrolments = length (filter enrolment.isActive enrolments);
          totalRevenue =
            foldl (\<lambda>sum t. dadd sum (Math_abs (transaction.amount t))) (Fin 0)
              (filter (\<lambda>t. transaction.type t = ''charge'' \<and> transaction.status t = ''completed''
                          \<and> truthy (transaction.courseId t)) transactions)
      in \<lparr> totalCourses = length courses,
           activeCourses = activeCourses,
           totalEnrolments = totalEnrolments,
           activeEnrolments = activeEnrolments,
           totalRevenue = totalRevenue \<rparr>)"

section \<open>The filtered summary and the page\<close>

text \<open>
  The summary footer shows the number of filtered rows and two sums over them. The sum of the
  active enrolments is a sum of counts; the revenue sum adds doubles and is handed to the
  display formatter \<^verbatim>\<open>formatCurrency\<close>, which is not part of this model.
\<close>

definition summaryFooter :: "course_stats list \<Rightarrow> nat \<times> nat \<times> double" where
  "summaryFooter filtered =
     (length filtered,
      foldl (\<lambda>sum c. sum + course_stats.activeEnrolments c) 0 filtered,
      foldl (\<lambda>sum c. dadd sum (course_stats.totalRevenue c)) (Fin 0) filtered)"

text \<open>
  One render of the component: the values it derives from the three collections and the two
  filter states, named after the place that shows them.
\<close>

record page =
  providerOptions :: "string list"
  statCards :: overall_stats
  tableRows :: "course_stats list"
  footer :: "nat \<times> nat \<times> double"

definition CoursesReportPage ::
  "course list \<Rightarrow> enrolment list \<Rightarrow> transaction list \<Rightarrow> string \<Rightarrow> string \<Rightarrow> page" where
  "CoursesReportPage courses enrolments transactions statusFilter providerFilter =
     (let stats = courseStats courses enrolments transactions;
          filtered = filteredCourses stats statusFilter providerFilter
      in \<lparr> providerOptions = providers courses,
           statCards = overallStats courses enrolments transactions,
           tableRows = filtered,
           footer = summaryFooter filtered \<rparr>)"

section \<open>Export\<close>

text \<open>
  A row of the export is a mixed array of strings and numbers. \<^verbatim>\<open>join\<close> and the template
  literal turn a number into text with the runtime's number-to-string conversion, which is a
  parameter \<open>numStr\<close> of the model.
\<close>

datatype cell = Str string | Num double

fun cell_text :: "(double \<Rightarrow> string) \<Rightarrow> cell \<Rightarrow> string" where
  "cell_text numStr (Str s) = s"
| "cell_text numStr (Num n) = numStr n"

fun join :: "string \<Rightarrow> string list \<Rightarrow> string" where
  "join sep [] = []"
| "join sep [x] = x"
| "join sep (x # y # ys) = x @ sep @ join sep (y # ys)"

definition headers :: "string list" where
  "headers =
     [''Course Code'', ''Course Name'', ''Provider'', ''Monthly Fee'', ''Status'',
      ''Total Enrolments'', ''Active Enrolments'', ''Total Revenue'', ''Start Date'',
      ''End Date'']"

text \<open>\<^verbatim>\<open>course.startDate || ''\<close>: an absent date becomes the empty string.\<close>

definition or_empty :: "string option \<Rightarrow> string" where
  "or_empty v = (case v of None \<Rightarrow> [] | Some s \<Rightarrow> s)"

definition row_of :: "course_stats \<Rightarrow> cell list" where
  "row_of c =
     [Str (course.code c),
      Str (course.name c),
      Str (course.provider c),
      Num (course.monthlyFee c),
      Str (if course.isActive c then ''Active'' else ''Inactive''),
      Num (Fin (of_nat (course_stats.totalEnrolments c))),
      Num (Fin (of_nat (course_stats.activeEnrolments c))),
      Num (course_stats.totalRevenue c),
      Str (or_empty (course.startDate c)),
      Str (or_empty (course.endDate c))]"

definition rows :: "course_stats list \<Rightarrow> cell list list" where
  "rows filtered = map row_of filtered"

definition csvContent :: "(double \<Rightarrow> string) \<Rightarrow> course_stats list \<Rightarrow> string" where
  "csvContent numStr filtered =
     join [CHR 0x0A]
       (join '','' headers #
        map (\<lambda>row. join '','' (map (\<lambda>cell. [CHR 0x22] @ cell_text numStr cell @ [CHR 0x22]) row))
          (rows filtered))"

definition excelContent :: "(double \<Rightarrow> string) \<Rightarrow> course_stats list \<Rightarrow> string" where
  "excelContent numStr filtered =
     join [CHR 0x0A]
       (join [CHR 0x09] headers #
        map (\<lambda>row. join [CHR 0x09] (map (cell_text numStr) row)) (rows filtered))"

text \<open>
  \<^verbatim>\<open>handleExport\<close> hands a blob to the browser and shows a toast. The model returns what
  it hands over: the text, the blob's type, the download name and the toast's description.
  \<open>now\<close> is the value of \<^verbatim>\<open>new Date().toISOString()\<close>; \<^verbatim>\<open>split('T')[0]\<close> keeps what
  stands before the first \<^verbatim>\<open>T\<close>.
\<close>

datatype format = csv | excel

record export =
  content :: string
  blobType :: string
  download :: string
  description :: string

definition handleExport ::
  "(double \<Rightarrow> string) \<Rightarrow> string \<Rightarrow> course_stats list \<Rightarrow> format \<Rightarrow> export" where
  "handleExport numStr now filtered fmt =
     (case fmt of
        csv \<Rightarrow>
          \<lparr> content = csvContent numStr filtered,
            blobType = ''text/csv;charset=utf-8;'',
            download = ''courses_report_'' @ takeWhile (\<lambda>ch. ch \<noteq> CHR ''T'') now @ ''.csv'',
            description = ''Courses report has been exported as CSV.'' \<rparr>
      | excel \<Rightarrow>
          \<lparr> content = excelContent numStr filtered,
            blobType = ''application/vnd.ms-excel;charset=utf-8;'',
            download = ''courses_report_'' @ takeWhile (\<lambda>ch. ch \<noteq> CHR ''T'') now @ ''.xls'',
            description = ''Courses report has been exported as Excel file.'' \<rparr>)"

text \<open>
  The number-to-string conversion on whole numbers of magnitude below \<open>10^21\<close>, used where a
  concrete conversion is needed: decimal digits, with a minus sign for negative values. It is
  not meant for other finite numbers.
\<close>

fun digits :: "nat \<Rightarrow> string" where
  "digits n =
     (if n < 10 then [''0123456789'' ! n] else digits (n div 10) @ [''0123456789'' ! (n mod 10)])"

fun wholeStr :: "double \<Rightarrow> string" where
  "wholeStr NaN = ''NaN''"
| "wholeStr PInf = ''Infinity''"
| "wholeStr NInf = ''-Infinity''"
| "wholeStr NegZero = ''0''"
| "wholeStr (Fin r) =
     (if r < 0 then CHR ''-'' # digits (nat (- \<lfloor>r\<rfloor>)) else digits (nat \<lfloor>r\<rfloor>))"

section \<open>Sample data\<close>

text \<open>Concrete collections on which the theorems below are exercised.\<close>

definition intro_course :: course where
  "intro_course =
     \<lparr> course.id = ''c1'', code = ''C1'', name = ''Intro'', provider = ''Acme'',
       monthlyFee = Fin 100, isActive = True, startDate = None, endDate = None \<rparr>"

definition intro_enrolments :: "enrolment list" where
  "intro_enrolments =
     [\<lparr> enrolment.id = ''e1'', courseId = ''c1'', isActive = True \<rparr>,
      \<lparr> enrolment.id = ''e2'', courseId = ''c1'', isActive = False \<rparr>]"

definition intro_transactions :: "transaction list" where
  "intro_transactions =
     [\<lparr> transaction.id = ''t1'', courseId = Some ''c1'', type = ''charge'',
        status = ''completed'', amount = Fin (- 75) \<rparr>]"

definition second_course :: course where
  "second_course =
     \<lparr> course.id = ''c2'', code = ''C2'', name = ''Advanced'', provider = ''Beta'',
       monthlyFee = Fin 250, isActive = False, startDate = Some ''2025-01-06'', endDate = None \<rparr>"

definition summary_enrolments :: "enrolment list" where
  "summary_enrolments =
     [\<lparr> enrolment.id = ''e1'', courseId = ''c1'', isActive = True \<rparr>,
      \<lparr> enrolment.id = ''e2'', courseId = ''c1'', isActive = True \<rparr>]"

definition summary_transactions :: "transaction list" where
  "summary_transactions =
     [\<lparr> transaction.id = ''t1'', courseId = Some ''c1'', type = ''charge'',
        status = ''completed'', amount = Fin 50 \<rparr>]"

text \<open>A completed charge whose \<^verbatim>\<open>courseId\<close> is the empty string, and a course whose id is.\<close>

definition blank_id_charge :: transaction where
  "blank_id_charge =
     \<lparr> transaction.id = ''t9'', courseId = Some [], type = ''charge'',
       status = ''completed'', amount = Fin 50 \<rparr>"

definition blank_id_course :: course where
  "blank_id_course =
     \<lparr> course.id = [], code = ''C0'', name = ''Draft'', provider = ''Acme'',
       monthlyFee = Fin 0, isActive = True, startDate = None, endDate = None \<rparr>"

definition export_time :: string where
  "export_time = ''2026-01-15T09:30:00.000Z''"

text \<open>
  Completed charges of the first course with the amounts \<^verbatim>\<open>0.1\<close> and \<^verbatim>\<open>0.2\<close>, the doubles
  nearest to one tenth and to one fifth.
\<close>

definition tenth_fifth :: "transaction list" where
  "tenth_fifth =
     [\<lparr> transaction.id = ''t1'', courseId = Some ''c1'', type = ''charge'',
        status = ''completed'', amount = round64 (1 / 10) \<rparr>,
      \<lparr> transaction.id = ''t2'', courseId = Some ''c1'', type = ''charge'',
        status = ''completed'', amount = round64 (2 / 10) \<rparr>]"

text \<open>Completed charges \<^verbatim>\<open>0.1\<close>, \<^verbatim>\<open>-0.2\<close> and \<^verbatim>\<open>0.3\<close> of the first course.\<close>

definition three_tenths :: "transaction list" where
  "three_tenths =
     [\<lparr> transaction.id = ''t1'', courseId = Some ''c1'', type = ''charge'',
        status = ''completed'', amount = round64 (1 / 10) \<rparr>,
      \<lparr> transaction.id = ''t2'', courseId = Some ''c1'', type = ''charge'',
        status = ''completed'', amount = round64 (- 2 / 10) \<rparr>,
      \<lparr> transaction.id = ''t3'', courseId = Some ''c1'', type = ''charge'',
        status = ''completed'', amount = round64 (3 / 10) \<rparr>]"

text \<open>
  Completed charges \<^verbatim>\<open>0.1\<close> of the first course and \<^verbatim>\<open>0.2\<close> of the second, and completed
  charges \<^verbatim>\<open>0.1\<close>, \<^verbatim>\<open>0.7\<close>, \<^verbatim>\<open>0.3\<close> of the first, the second and the first course.
\<close>

definition split_charges :: "transaction list" where
  "split_charges =
     [\<lparr> transaction.id = ''t1'', courseId = Some ''c1'', type = ''charge'',
        status = ''completed'', amount = round64 (1 / 10) \<rparr>,
      \<lparr> transaction.id = ''t2'', courseId = Some ''c2'', type = ''charge'',
        status = ''completed'', amount = round64 (2 / 10) \<rparr>]"

definition interleaved_charges :: "transaction list" where
  "interleaved_charges =
     [\<lparr> transaction.id = ''t1'', courseId = Some ''c1'', type = ''charge'',
        status = ''completed'', amount = round64 (1 / 10) \<rparr>,
      \<lparr> transaction.id = ''t2'', courseId = Some ''c2'', type = ''charge'',
        status = ''completed'', amount = round64 (7 / 10) \<rparr>,
      \<lparr> transaction.id = ''t3'', courseId = Some ''c1'', type = ''charge'',
        status = ''completed'', amount = round64 (3 / 10) \<rparr>]"

text \<open>A completed charge of the first course whose amount is \<^verbatim>\<open>NaN\<close>.\<close>

definition nan_charge :: "transaction list" where
  "nan_charge =
     [\<lparr> transaction.id = ''t1'', courseId = Some ''c1'', type = ''charge'',
        status = ''completed'', amount = NaN \<rparr>]"

section \<open>Auxiliary facts: numbers\<close>

text \<open>
  The type \<open>double\<close> also holds \<open>Fin q\<close> for rationals \<open>q\<close> that no double has as its value.
  The facts below hold for every value of the type, the doubles among them; the concrete
  inputs further down are doubles: whole numbers and rounded literals.
\<close>

lemma pw2_power: "pw2 n = 2 ^ nat n"
proof (induction n rule: pw2.induct)
  case (1 n)
  show ?case
  proof (cases "n \<le> 0")
    case True
    then show ?thesis by (simp add: pw2.simps)
  next
    case False
    then have "nat n = Suc (nat (n - 1))" by simp
    with False 1 show ?thesis by (simp add: pw2.simps [of n])
  qed
qed

lemma pow2_pos: "0 < pow2 e"
  by (simp add: pow2_def pw2_power)

lemma bitlen_le: "n < 2 ^ k \<Longrightarrow> bitlen n \<le> int k"
proof (induction k arbitrary: n)
  case 0
  then show ?case by (simp add: bitlen.simps [of n])
next
  case (Suc k)
  show ?case
  proof (cases "n \<le> 0")
    case True
    then show ?thesis by (simp add: bitlen.simps [of n])
  next
    case False
    from Suc.prems have "n div 2 < 2 ^ k" by simp
    then have "bitlen (n div 2) \<le> int k" by (rule Suc.IH)
    with False show ?thesis by (simp add: bitlen.simps [of n])
  qed
qed

lemma bitlen_nonneg: "0 \<le> bitlen n"
  by (induction n rule: bitlen.induct) (simp add: bitlen.simps)

lemma bitlen_pos: "0 < n \<Longrightarrow> 1 \<le> bitlen n"
  using bitlen_nonneg [of "n div 2"] by (simp add: bitlen.simps [of n])

lemma rhe_of_int: "rhe (of_int k) = k"
  by (simp add: rhe_def)

lemma rhe_nonneg: "0 \<le> x \<Longrightarrow> 0 \<le> rhe x"
  by (auto simp: rhe_def Let_def)

lemma round64_of_int:
  assumes "0 < n" and "n < 2 ^ 53"
  shows "round64 (of_int n) = Fin (of_int n)"
proof -
  define e where "e = bitlen n - 1"
  have e0: "0 \<le> e" using bitlen_pos [OF assms(1)] by (simp add: e_def)
  have e52: "e \<le> 52" using bitlen_le [OF assms(2)] by (simp add: e_def)
  have il: "ilog2 (of_int n) = e"
    using assms(1) by (simp add: ilog2_def e_def)
  have u: "max e (- 1022) - 52 = e - 52" using e0 by simp
  have p: "pow2 (e - 52) = 1 / 2 ^ nat (52 - e)"
  proof (cases "e = 52")
    case True
    then show ?thesis by (simp add: pow2_def pw2_power)
  next
    case False
    with e52 have "\<not> 0 \<le> e - 52" by simp
    then show ?thesis by (simp add: pow2_def pw2_power)
  qed
  have q: "of_int n / pow2 (e - 52) = (of_int (n * 2 ^ nat (52 - e)) :: rat)"
    by (simp add: p)
  have m: "rhe (of_int n / pow2 (e - 52)) = n * 2 ^ nat (52 - e)"
    unfolding q by (rule rhe_of_int)
  have m0: "n * 2 ^ nat (52 - e) \<noteq> 0" using assms(1) by simp
  have mul: "of_int (n * 2 ^ nat (52 - e)) * pow2 (e - 52) = (of_int n :: rat)"
    by (simp add: p)
  have a: "\<bar>of_int n :: rat\<bar> = of_int n" using assms(1) by simp
  have nz: "(of_int n :: rat) \<noteq> 0" "(0 :: rat) < of_int n" using assms(1) by simp_all
  show ?thesis
    unfolding round64_def Let_def a il u m
    using nz e52 m0 mul by simp
qed

lemma dadd_whole:
  assumes "0 \<le> a" "0 \<le> b" "a + b < 2 ^ 53"
  shows "dadd (Fin (of_int a)) (Fin (of_int b)) = Fin (of_int (a + b))"
proof (cases "a + b = 0")
  case True
  with assms have "a = 0" "b = 0" by simp_all
  then show ?thesis by (simp add: round64_def)
next
  case False
  with assms have "0 < a + b" by simp
  from round64_of_int [OF this assms(3)] show ?thesis by simp
qed

lemma round64_nonneg: "0 \<le> q \<Longrightarrow> nonneg (round64 q)"
  using rhe_nonneg [of "\<bar>q\<bar> / pow2 (max (ilog2 \<bar>q\<bar>) (- 1022) - 52)"]
    pow2_pos [of "max (ilog2 \<bar>q\<bar>) (- 1022) - 52"]
  by (auto simp: round64_def Let_def less_imp_le)

lemma dadd_nonneg: "nonneg a \<Longrightarrow> nonneg b \<Longrightarrow> nonneg (dadd a b)"
  by (cases a; cases b) (simp_all add: round64_nonneg)

lemma Math_abs_nonneg: "d \<noteq> NaN \<Longrightarrow> nonneg (Math_abs d)"
  by (cases d) simp_all

lemma nonneg_dle: "nonneg d \<Longrightarrow> dle (Fin 0) d"
  by (cases d) simp_all

text \<open>
  The exponent and the rounding step are what their descriptions say: \<open>ilog2 a\<close> is the
  binary exponent of \<open>a\<close>, and \<open>rhe x\<close> is an integer nearest to \<open>x\<close>, the even one at a
  tie.
\<close>

lemma pow2_Suc: "pow2 (e + 1) = 2 * pow2 e"
proof (cases "0 \<le> e")
  case True
  then have "nat (e + 1) = Suc (nat e)" by simp
  with True show ?thesis by (simp add: pow2_def pw2_power)
next
  case False
  then have "nat (- e) = Suc (nat (- (e + 1)))" by simp
  with False show ?thesis by (auto simp: pow2_def pw2_power)
qed

lemma bitlen_bounds:
  "0 < n \<Longrightarrow> 2 ^ nat (bitlen n - 1) \<le> n \<and> n < 2 ^ nat (bitlen n)"
proof (induction n rule: bitlen.induct)
  case (1 n)
  show ?case
  proof (cases "n div 2 \<le> 0")
    case True
    with 1(2) have "n = 1" by auto
    then show ?thesis by (simp add: bitlen.simps [of 1] bitlen.simps [of 0])
  next
    case False
    then have m: "0 < n div 2" by simp
    from 1(2) have "\<not> n \<le> 0" by simp
    from 1(1) [OF this m]
    have ih: "2 ^ nat (bitlen (n div 2) - 1) \<le> n div 2" "n div 2 < 2 ^ nat (bitlen (n div 2))"
      by simp_all
    have bl: "bitlen n = 1 + bitlen (n div 2)" using 1(2) by (simp add: bitlen.simps [of n])
    have pos: "1 \<le> bitlen (n div 2)" using m by (rule bitlen_pos)
    then have e1: "nat (bitlen n - 1) = Suc (nat (bitlen (n div 2) - 1))"
      and e2: "nat (bitlen n) = Suc (nat (bitlen (n div 2)))"
      unfolding bl by simp_all
    have "2 * (n div 2) \<le> n" by simp
    with ih(1) have lo: "2 ^ nat (bitlen n - 1) \<le> n" unfolding e1 by simp
    have "n < 2 * (n div 2) + 2" by presburger
    also have "\<dots> \<le> 2 * 2 ^ nat (bitlen (n div 2))" using ih(2) by simp
    finally have hi: "n < 2 ^ nat (bitlen n)" unfolding e2 by simp
    from lo hi show ?thesis ..
  qed
qed

lemma ilog2_bounds:
  assumes "0 < a"
  shows "pow2 (ilog2 a) \<le> a \<and> a < pow2 (ilog2 a + 1)"
proof (cases "1 \<le> a")
  case True
  then have f: "0 < \<lfloor>a\<rfloor>" by simp
  from bitlen_pos [OF f] have e: "0 \<le> bitlen \<lfloor>a\<rfloor> - 1" by simp
  from bitlen_bounds [OF f]
  have lo: "2 ^ nat (bitlen \<lfloor>a\<rfloor> - 1) \<le> \<lfloor>a\<rfloor>" and hi: "\<lfloor>a\<rfloor> < 2 ^ nat (bitlen \<lfloor>a\<rfloor>)"
    by simp_all
  from lo have "(of_int (2 ^ nat (bitlen \<lfloor>a\<rfloor> - 1)) :: rat) \<le> of_int \<lfloor>a\<rfloor>"
    by (simp only: of_int_le_iff)
  also have "\<dots> \<le> a" by simp
  finally have l: "pow2 (bitlen \<lfloor>a\<rfloor> - 1) \<le> a" using e by (simp add: pow2_def pw2_power)
  from hi have "\<lfloor>a\<rfloor> + 1 \<le> 2 ^ nat (bitlen \<lfloor>a\<rfloor>)" by simp
  then have "(of_int (\<lfloor>a\<rfloor> + 1) :: rat) \<le> of_int (2 ^ nat (bitlen \<lfloor>a\<rfloor>))"
    by (simp only: of_int_le_iff)
  moreover have "a < of_int (\<lfloor>a\<rfloor> + 1)" by linarith
  ultimately have "a < of_int (2 ^ nat (bitlen \<lfloor>a\<rfloor>))" by linarith
  then have h: "a < pow2 (bitlen \<lfloor>a\<rfloor> - 1 + 1)"
    using e by (simp add: pow2_def pw2_power)
  from True l h show ?thesis by (simp add: ilog2_def)
next
  case False
  define b where "b = 1 / a"
  define k where "k = bitlen \<lfloor>b\<rfloor> - 1"
  from False assms have b1: "1 < b" by (simp add: b_def)
  then have f: "0 < \<lfloor>b\<rfloor>" by simp
  from bitlen_pos [OF f] have k0: "0 \<le> k" by (simp add: k_def)
  have a: "a = 1 / b" using assms by (simp add: b_def)
  from bitlen_bounds [OF f]
  have lo: "2 ^ nat k \<le> \<lfloor>b\<rfloor>" and hi: "\<lfloor>b\<rfloor> < 2 ^ nat (k + 1)"
    by (simp_all add: k_def)
  from lo have "(of_int (2 ^ nat k) :: rat) \<le> of_int \<lfloor>b\<rfloor>" by (simp only: of_int_le_iff)
  also have "\<dots> \<le> b" by simp
  finally have l: "pow2 k \<le> b" using k0 by (simp add: pow2_def pw2_power)
  from hi have "\<lfloor>b\<rfloor> + 1 \<le> 2 ^ nat (k + 1)" by simp
  then have "(of_int (\<lfloor>b\<rfloor> + 1) :: rat) \<le> of_int (2 ^ nat (k + 1))"
    by (simp only: of_int_le_iff)
  moreover have "b < of_int (\<lfloor>b\<rfloor> + 1)" by linarith
  ultimately have "b < of_int (2 ^ nat (k + 1))" by linarith
  then have h: "b < pow2 (k + 1)" using k0 by (simp add: pow2_def pw2_power)
  have inv: "pow2 (- j) = 1 / pow2 j" if "0 \<le> j" for j
    using that by (cases "j = 0") (simp_all add: pow2_def pw2_power)
  have il: "ilog2 a = (if b = pow2 k then - k else - k - 1)"
    using False by (simp add: ilog2_def Let_def b_def k_def)
  show ?thesis
  proof (cases "b = pow2 k")
    case True
    then have e: "ilog2 a = - k" by (simp add: il)
    from True have v: "a = pow2 (- k)" using k0 by (simp add: a inv)
    have "pow2 (- k) < 2 * pow2 (- k)"
      using pow2_pos [of "- k"] by simp
    then have "pow2 (- k) < pow2 (- k + 1)" by (simp only: pow2_Suc)
    then have "pow2 (- k) \<le> a \<and> a < pow2 (- k + 1)" unfolding v by simp
    then show ?thesis by (simp only: e)
  next
    case ne: False
    with l have lt: "pow2 k < b" by simp
    have "- k - 1 = - (k + 1)" by simp
    then have p1: "pow2 (- k - 1) = 1 / pow2 (k + 1)"
      using inv [of "k + 1"] k0 by (simp only:)
    have p2: "pow2 (- k - 1 + 1) = 1 / pow2 k"
      using inv [of k] k0 by simp
    have "1 / pow2 (k + 1) < 1 / b"
      using h b1 by (intro divide_strict_left_mono) (simp_all add: pow2_pos)
    then have lo': "pow2 (- k - 1) \<le> a" unfolding p1 a by simp
    have "1 / b < 1 / pow2 k"
      using lt pow2_pos [of k] b1 by (intro divide_strict_left_mono) simp_all
    then have hi': "a < pow2 (- k - 1 + 1)" unfolding p2 a .
    from ne lo' hi' show ?thesis by (simp add: il)
  qed
qed

lemma rhe_nearest: "\<bar>of_int (rhe x) - x\<bar> \<le> 1 / 2"
proof -
  have lo: "of_int \<lfloor>x\<rfloor> \<le> x" and hi: "x < of_int \<lfloor>x\<rfloor> + 1" by linarith+
  consider "x - of_int \<lfloor>x\<rfloor> < 1 / 2" | "1 / 2 < x - of_int \<lfloor>x\<rfloor>"
    | "x - of_int \<lfloor>x\<rfloor> = 1 / 2" by linarith
  then show ?thesis
  proof cases
    case 1
    then have "rhe x = \<lfloor>x\<rfloor>" by (simp add: rhe_def Let_def)
    with 1 lo show ?thesis by (simp add: abs_if; linarith?)
  next
    case 2
    then have "rhe x = \<lfloor>x\<rfloor> + 1" by (simp add: rhe_def Let_def)
    with 2 hi show ?thesis by (simp add: abs_if; linarith?)
  next
    case 3
    then have "rhe x = \<lfloor>x\<rfloor> \<or> rhe x = \<lfloor>x\<rfloor> + 1" by (simp add: rhe_def Let_def)
    with 3 show ?thesis by (auto simp: abs_if)
  qed
qed

lemma rhe_tie_even: "x - of_int \<lfloor>x\<rfloor> = 1 / 2 \<Longrightarrow> even (rhe x)"
  by (simp add: rhe_def Let_def)

text \<open>Literals and sums as JavaScript evaluates them.\<close>

lemma round64_literals:
  "round64 (1 / 10) = Fin (3602879701896397 / 36028797018963968)
   \<and> round64 (2 / 10) = Fin (3602879701896397 / 18014398509481984)
   \<and> round64 (3 / 10) = Fin (5404319552844595 / 18014398509481984)
   \<and> round64 (7 / 10) = Fin (3152519739159347 / 4503599627370496)
   \<and> round64 (- 2 / 10) = Fin (- (3602879701896397 / 18014398509481984))"
  by code_simp

lemma dadd_examples:
  "dadd (Fin 9007199254740992) (Fin 1) = Fin 9007199254740992
   \<and> dadd (Fin 9007199254740992) (Fin 3) = Fin 9007199254740996
   \<and> dadd (Fin 100000000000000000) (Fin 75) = Fin 100000000000000080
   \<and> dadd (Fin 1152921504606846976) (Fin 75) = Fin 1152921504606846976
   \<and> dadd (round64 (1 / 10)) (round64 (2 / 10)) = Fin (1351079888211149 / 4503599627370496)
   \<and> dadd (round64 (1 / 10)) (round64 (- 1 / 10)) = Fin 0
   \<and> dadd PInf NInf = NaN
   \<and> dadd NegZero NegZero = NegZero"
  by code_simp

text \<open>Sums of whole numbers below \<open>2^53\<close> are exact.\<close>

lemma whole_nonneg_int:
  assumes "whole d" and "nonneg d"
  obtains k where "0 \<le> k" and "d = Fin (of_int k)"
proof (cases d)
  case (Fin q)
  with assms obtain n where n: "q = of_int n" and "0 \<le> q" by auto
  then have "0 \<le> n" and "d = Fin (of_int n)" using Fin by simp_all
  then show ?thesis by (rule that)
qed (use assms in simp_all)

lemma sum_list_num_val_nonneg:
  "\<forall>d \<in> set ds. nonneg d \<Longrightarrow> 0 \<le> (\<Sum>d\<leftarrow>ds. num_val d)"
proof (rule sum_list_nonneg)
  fix x assume a: "\<forall>d \<in> set ds. nonneg d" and "x \<in> set (map num_val ds)"
  then obtain d where "d \<in> set ds" and x: "x = num_val d" by auto
  with a have "nonneg d" by blast
  then show "0 \<le> x" unfolding x by (cases d) simp_all
qed

lemma foldl_dadd_exact:
  assumes "\<forall>d \<in> set ds. whole d \<and> nonneg d" and "whole a" and "nonneg a"
    and "num_val a + (\<Sum>d\<leftarrow>ds. num_val d) < 2 ^ 53"
  shows "foldl dadd a ds = Fin (num_val a + (\<Sum>d\<leftarrow>ds. num_val d))"
  using assms
proof (induction ds arbitrary: a)
  case Nil
  from Nil(2,3) obtain k where "a = Fin (of_int k)" by (rule whole_nonneg_int)
  then show ?case by simp
next
  case (Cons d ds)
  from Cons.prems(2,3) obtain i where i: "0 \<le> i" "a = Fin (of_int i)"
    by (rule whole_nonneg_int)
  from Cons.prems(1) have "whole d" "nonneg d" by simp_all
  then obtain j where j: "0 \<le> j" "d = Fin (of_int j)"
    by (rule whole_nonneg_int)
  from Cons.prems(1) have rest: "0 \<le> (\<Sum>d\<leftarrow>ds. num_val d)"
    by (intro sum_list_num_val_nonneg) simp
  from Cons.prems(4) have bound: "(of_int (i + j) :: rat) + (\<Sum>d\<leftarrow>ds. num_val d) < 2 ^ 53"
    by (simp add: i j add.assoc)
  with rest have "(of_int (i + j) :: rat) < 2 ^ 53" by linarith
  then have "(of_int (i + j) :: rat) < of_int (2 ^ 53)" by simp
  then have lt: "i + j < 2 ^ 53" by (simp only: of_int_less_iff)
  have step: "dadd a d = Fin (of_int (i + j))"
    unfolding i j by (rule dadd_whole [OF i(1) j(1) lt])
  have ih: "foldl dadd (Fin (of_int (i + j))) ds =
      Fin (num_val (Fin (of_int (i + j))) + (\<Sum>d\<leftarrow>ds. num_val d))"
  proof (rule Cons.IH)
    show "\<forall>d \<in> set ds. whole d \<and> nonneg d" using Cons.prems(1) by simp
    show "whole (Fin (of_int (i + j)))" by simp
    show "nonneg (Fin (of_int (i + j)))" using i(1) j(1) by simp
    show "num_val (Fin (of_int (i + j))) + (\<Sum>d\<leftarrow>ds. num_val d) < 2 ^ 53"
      using bound by simp
  qed
  have "foldl dadd a (d # ds) = foldl dadd (dadd a d) ds" by simp
  also have "\<dots> = foldl dadd (Fin (of_int (i + j))) ds" by (simp only: step)
  also note ih
  also have "Fin (num_val (Fin (of_int (i + j))) + (\<Sum>d\<leftarrow>ds. num_val d)) =
      Fin (num_val a + (\<Sum>d\<leftarrow>d # ds. num_val d))"
    by (simp add: i j)
  finally show ?case .
qed

lemma Math_abs_whole: "whole d \<Longrightarrow> whole (Math_abs d) \<and> nonneg (Math_abs d)"
proof (cases d)
  case (Fin q)
  assume "whole d"
  with Fin have q: "of_int \<lfloor>q\<rfloor> = q" by simp
  have "\<bar>q\<bar> = \<bar>of_int \<lfloor>q\<rfloor>\<bar>" by (simp add: q)
  also have "\<dots> = of_int \<bar>\<lfloor>q\<rfloor>\<bar>" by simp
  finally have "of_int \<lfloor>\<bar>q\<bar>\<rfloor> = \<bar>q\<bar>" by (metis floor_of_int)
  with Fin show ?thesis by simp
qed simp_all

lemma num_val_Math_abs: "num_val (Math_abs d) = \<bar>num_val d\<bar>"
  by (cases d) simp_all

lemma sum_list_filter_le:
  fixes f :: "'a \<Rightarrow> rat"
  assumes "\<And>x. 0 \<le> f x"
  shows "sum_list (map f (filter P xs)) \<le> sum_list (map f xs)"
  by (induction xs) (simp_all add: assms add_increasing)

text \<open>A sum of magnitudes is \<^verbatim>\<open>NaN\<close> or at least zero.\<close>

lemma foldl_dadd_nonneg:
  "nonneg a \<Longrightarrow> \<forall>d \<in> set ds. nonneg d \<Longrightarrow> nonneg (foldl dadd a ds)"
  by (induction ds arbitrary: a) (simp_all add: dadd_nonneg)

lemma dadd_NaN_or_nonneg:
  "a = NaN \<or> nonneg a \<Longrightarrow> b = NaN \<or> nonneg b \<Longrightarrow> dadd a b = NaN \<or> nonneg (dadd a b)"
  by (cases a; cases b) (simp_all add: round64_nonneg)

lemma foldl_dadd_NaN_or_nonneg:
  "a = NaN \<or> nonneg a \<Longrightarrow> \<forall>d \<in> set ds. d = NaN \<or> nonneg d \<Longrightarrow>
   foldl dadd a ds = NaN \<or> nonneg (foldl dadd a ds)"
proof (induction ds arbitrary: a)
  case Nil
  then show ?case by simp
next
  case (Cons d ds)
  from Cons.prems have "dadd a d = NaN \<or> nonneg (dadd a d)"
    by (intro dadd_NaN_or_nonneg) simp_all
  moreover from Cons.prems(2) have "\<forall>d \<in> set ds. d = NaN \<or> nonneg d" by simp
  ultimately have "foldl dadd (dadd a d) ds = NaN \<or> nonneg (foldl dadd (dadd a d) ds)"
    by (rule Cons.IH)
  then show ?case by simp
qed

lemma Math_abs_NaN_or_nonneg: "Math_abs d = NaN \<or> nonneg (Math_abs d)"
  by (cases d) simp_all

section \<open>Auxiliary facts: the report\<close>

lemma foldl_add_sum_list:
  fixes a :: "'a::monoid_add"
  shows "foldl (\<lambda>sum x. sum + f x) a xs = a + sum_list (map f xs)"
  by (induction xs arbitrary: a) (simp_all add: add.assoc)


lemma stats_of_totalRevenue:
  "course_stats.totalRevenue (stats_of es ts c) =
     foldl dadd (Fin 0) (map (\<lambda>t. Math_abs (transaction.amount t))
       (filter (\<lambda>t. transaction.courseId t = Some (course.id c) \<and>
          transaction.type t = ''charge'' \<and> transaction.status t = ''completed'') ts))"
proof -
  have "filter (\<lambda>t. transaction.type t = ''charge'' \<and> transaction.status t = ''completed'')
          (filter (\<lambda>t. transaction.courseId t = Some (course.id c)) ts) =
        filter (\<lambda>t. transaction.courseId t = Some (course.id c) \<and>
          transaction.type t = ''charge'' \<and> transaction.status t = ''completed'') ts"
    unfolding filter_filter by (rule filter_cong) auto
  then show ?thesis
    by (simp add: stats_of_def Let_def foldl_map course.defs course_stats.defs)
qed

lemma stats_of_totalEnrolments:
  "course_stats.totalEnrolments (stats_of es ts c) =
     length (filter (\<lambda>e. enrolment.courseId e = course.id c) es)"
  by (simp add: stats_of_def Let_def course.defs course_stats.defs)

lemma stats_of_activeEnrolments:
  "course_stats.activeEnrolments (stats_of es ts c) =
     length (filter enrolment.isActive (filter (\<lambda>e. enrolment.courseId e = course.id c) es))"
  by (simp add: stats_of_def Let_def course.defs course_stats.defs)

lemma stats_of_truncate: "course.truncate (stats_of es ts c) = c"
  by (simp add: stats_of_def Let_def course.defs course_stats.defs)

lemma overallStats_totalRevenue:
  "overall_stats.totalRevenue (overallStats cs es ts) =
     foldl dadd (Fin 0) (map (\<lambda>t. Math_abs (transaction.amount t))
       (filter (\<lambda>t. transaction.type t = ''charge'' \<and> transaction.status t = ''completed'' \<and>
          truthy (transaction.courseId t)) ts))"
  by (simp add: overallStats_def Let_def foldl_map)

lemma revenue_exact:
  assumes w: "\<forall>t \<in> set ts. whole (transaction.amount t)"
    and b: "(\<Sum>t\<leftarrow>ts. \<bar>num_val (transaction.amount t)\<bar>) < 2 ^ 53"
  shows "foldl dadd (Fin 0) (map (\<lambda>t. Math_abs (transaction.amount t)) (filter P ts)) =
         Fin (\<Sum>t\<leftarrow>filter P ts. \<bar>num_val (transaction.amount t)\<bar>)"
proof -
  have s: "(\<Sum>d\<leftarrow>map (\<lambda>t. Math_abs (transaction.amount t)) (filter P ts). num_val d) =
        (\<Sum>t\<leftarrow>filter P ts. \<bar>num_val (transaction.amount t)\<bar>)"
    by (simp add: comp_def num_val_Math_abs)
  have "(\<Sum>t\<leftarrow>filter P ts. \<bar>num_val (transaction.amount t)\<bar>) \<le>
        (\<Sum>t\<leftarrow>ts. \<bar>num_val (transaction.amount t)\<bar>)"
    by (rule sum_list_filter_le) simp
  with b have lt: "(\<Sum>t\<leftarrow>filter P ts. \<bar>num_val (transaction.amount t)\<bar>) < 2 ^ 53"
    by linarith
  have "foldl dadd (Fin 0) (map (\<lambda>t. Math_abs (transaction.amount t)) (filter P ts)) =
        Fin (num_val (Fin 0) +
          (\<Sum>d\<leftarrow>map (\<lambda>t. Math_abs (transaction.amount t)) (filter P ts). num_val d))"
  proof (rule foldl_dadd_exact)
    show "\<forall>d \<in> set (map (\<lambda>t. Math_abs (transaction.amount t)) (filter P ts)).
        whole d \<and> nonneg d"
      using w by (auto dest: Math_abs_whole)
    show "whole (Fin 0)" "nonneg (Fin 0)" by simp_all
    show "num_val (Fin 0) +
        (\<Sum>d\<leftarrow>map (\<lambda>t. Math_abs (transaction.amount t)) (filter P ts). num_val d) < 2 ^ 53"
      unfolding s using lt by simp
  qed
  then show ?thesis unfolding s by simp
qed

lemma stats_of_revenue_shape:
  "course_stats.totalRevenue (stats_of es ts c) = NaN \<or>
   nonneg (course_stats.totalRevenue (stats_of es ts c))"
  unfolding stats_of_totalRevenue
  by (rule foldl_dadd_NaN_or_nonneg) (auto simp: Math_abs_NaN_or_nonneg)

lemma filteredCourses_courseStats:
  "filteredCourses (courseStats cs es ts) sf pf =
     map (stats_of es ts)
       (filter (\<lambda>c. (sf = ''all'' \<or> (sf = ''active'' \<and> course.isActive c) \<or>
                  (sf = ''inactive'' \<and> \<not> course.isActive c)) \<and>
                 (pf = ''all'' \<or> course.provider c = pf)) cs)"
  by (simp add: filteredCourses_def courseStats_def Let_def filter_map comp_def stats_of_def
      course.defs course_stats.defs)

lemma summary_rows:
  "map course_stats.totalRevenue
     (filteredCourses (courseStats [intro_course, second_course] summary_enrolments
        summary_transactions) ''all'' ''all'') = [Fin 50, Fin 0]"
proof -
  have "dadd (Fin 0) (Fin 50) = Fin 50"
    using dadd_whole [of 0 50] by simp
  then show ?thesis
    by (simp add: filteredCourses_courseStats stats_of_totalRevenue intro_course_def
        second_course_def summary_transactions_def)
qed

lemma set_foldl_set_add: "set (foldl set_add s xs) = set s \<union> set xs"
  by (induction xs arbitrary: s) (auto simp: set_add_def)

lemma distinct_foldl_set_add: "distinct s \<Longrightarrow> distinct (foldl set_add s xs)"
  by (induction xs arbitrary: s) (auto simp: set_add_def)

lemma truthy_iff: "truthy v \<longleftrightarrow> v \<noteq> None \<and> v \<noteq> Some []"
  by (cases v) (simp_all add: truthy_def)

lemma sum_list_if_const:
  fixes w :: "'a::semiring_1"
  shows "sum_list (map (\<lambda>c. if R c then w else 0) cs) = w * of_nat (length (filter R cs))"
  by (induction cs) (simp_all add: distrib_left)

lemma sum_list_filter_swap:
  fixes w :: "'b \<Rightarrow> 'a::semiring_1"
  shows "sum_list (map (\<lambda>c. sum_list (map w (filter (R c) ts))) cs) =
         sum_list (map (\<lambda>t. w t * of_nat (length (filter (\<lambda>c. R c t) cs))) ts)"
proof (induction ts)
  case Nil
  show ?case by simp
next
  case (Cons t ts)
  have "sum_list (map (\<lambda>c. sum_list (map w (filter (R c) (t # ts)))) cs) =
        sum_list (map (\<lambda>c. (if R c t then w t else 0) + sum_list (map w (filter (R c) ts))) cs)"
    by (rule arg_cong [where f = sum_list], rule map_cong) simp_all
  also have "\<dots> = sum_list (map (\<lambda>c. if R c t then w t else 0) cs) +
        sum_list (map (\<lambda>c. sum_list (map w (filter (R c) ts))) cs)"
    by (rule sum_list_addf)
  also have "\<dots> = w t * of_nat (length (filter (\<lambda>c. R c t) cs)) +
        sum_list (map (\<lambda>t. w t * of_nat (length (filter (\<lambda>c. R c t) cs))) ts)"
    by (simp only: sum_list_if_const Cons.IH)
  finally show ?case by simp
qed

lemma id_count_le_1:
  "distinct (map f cs) \<Longrightarrow> length (filter (\<lambda>c. f c = k) cs) \<le> Suc 0"
  by (induction cs) (auto simp: filter_empty_conv image_iff)

lemma id_count_0: "k \<notin> f ` set cs \<Longrightarrow> length (filter (\<lambda>c. f c = k) cs) = 0"
  by (auto simp: filter_empty_conv)

lemma id_count_1:
  assumes "distinct (map f cs)" and "k \<in> f ` set cs"
  shows "length (filter (\<lambda>c. f c = k) cs) = Suc 0"
proof -
  from assms(2) have "filter (\<lambda>c. f c = k) cs \<noteq> []"
    by (auto simp: filter_empty_conv)
  then have "0 < length (filter (\<lambda>c. f c = k) cs)" by simp
  with id_count_le_1 [OF assms(1), of k] show ?thesis by linarith
qed

lemma enrolments_swap:
  "sum_list (map course_stats.totalEnrolments (courseStats cs es ts)) =
     sum_list (map (\<lambda>e. length (filter (\<lambda>c. course.id c = enrolment.courseId e) cs)) es)"
proof -
  have "sum_list (map course_stats.totalEnrolments (courseStats cs es ts)) =
        sum_list (map (\<lambda>c. sum_list (map (\<lambda>e. 1::nat)
           (filter (\<lambda>e. enrolment.courseId e = course.id c) es))) cs)"
    by (simp add: courseStats_def comp_def stats_of_totalEnrolments sum_list_triv)
  also have "\<dots> = sum_list (map (\<lambda>e. 1 * of_nat (length
           (filter (\<lambda>c. enrolment.courseId e = course.id c) cs))) es)"
    by (rule sum_list_filter_swap)
  also have "\<dots> = sum_list (map (\<lambda>e. length (filter (\<lambda>c. course.id c = enrolment.courseId e) cs)) es)"
    by (simp add: eq_commute)
  finally show ?thesis .
qed

lemma joined_term_le:
  fixes w :: "transaction \<Rightarrow> rat"
  assumes d: "distinct (map course.id cs)" and ne: "[] \<notin> course.id ` set cs"
    and w: "0 \<le> w t"
  shows "w t * of_nat (length (filter (\<lambda>c.
        transaction.courseId t = Some (course.id c) \<and> transaction.type t = ''charge'' \<and>
        transaction.status t = ''completed'') cs))
     \<le> (if transaction.type t = ''charge'' \<and> transaction.status t = ''completed''
        \<and> truthy (transaction.courseId t) then w t else 0)"
proof (cases "transaction.type t = ''charge'' \<and> transaction.status t = ''completed''")
  case False
  then have "filter (\<lambda>c. transaction.courseId t = Some (course.id c) \<and>
      transaction.type t = ''charge'' \<and> transaction.status t = ''completed'') cs = []"
    by (auto simp: filter_empty_conv)
  with False w show ?thesis by simp
next
  case q: True
  show ?thesis
  proof (cases "transaction.courseId t")
    case None
    then show ?thesis using w by (simp add: truthy_def)
  next
    case (Some k)
    have eq: "filter (\<lambda>c. transaction.courseId t = Some (course.id c) \<and>
      transaction.type t = ''charge'' \<and> transaction.status t = ''completed'') cs =
      filter (\<lambda>c. course.id c = k) cs"
      using q Some by (intro filter_cong refl) auto
    show ?thesis
    proof (cases "k \<in> course.id ` set cs")
      case True
      with ne have "k \<noteq> []" by blast
      moreover have "length (filter (\<lambda>c. course.id c = k) cs) = Suc 0"
        by (rule id_count_1 [OF d True])
      ultimately show ?thesis unfolding eq using q Some by (simp add: truthy_def)
    next
      case False
      then have "length (filter (\<lambda>c. course.id c = k) cs) = 0" by (rule id_count_0)
      then show ?thesis unfolding eq using w by simp
    qed
  qed
qed

lemma joined_term_eq:
  fixes w :: "transaction \<Rightarrow> rat"
  assumes d: "distinct (map course.id cs)" and ne: "[] \<notin> course.id ` set cs"
    and ref: "transaction.type t = ''charge'' \<and> transaction.status t = ''completed'' \<longrightarrow>
       (\<forall>k. transaction.courseId t = Some k \<longrightarrow> k \<in> course.id ` set cs)"
  shows "w t * of_nat (length (filter (\<lambda>c.
        transaction.courseId t = Some (course.id c) \<and> transaction.type t = ''charge'' \<and>
        transaction.status t = ''completed'') cs))
     = (if transaction.type t = ''charge'' \<and> transaction.status t = ''completed''
        \<and> truthy (transaction.courseId t) then w t else 0)"
proof (cases "transaction.type t = ''charge'' \<and> transaction.status t = ''completed''")
  case False
  then show ?thesis by (auto simp: filter_empty_conv)
next
  case q: True
  show ?thesis
  proof (cases "transaction.courseId t")
    case None
    then show ?thesis by (simp add: truthy_def)
  next
    case (Some k)
    have eq: "filter (\<lambda>c. transaction.courseId t = Some (course.id c) \<and>
      transaction.type t = ''charge'' \<and> transaction.status t = ''completed'') cs =
      filter (\<lambda>c. course.id c = k) cs"
      using q Some by (intro filter_cong refl) auto
    from ref q Some have mem: "k \<in> course.id ` set cs" by blast
    with ne have "k \<noteq> []" by blast
    moreover have "length (filter (\<lambda>c. course.id c = k) cs) = Suc 0"
      by (rule id_count_1 [OF d mem])
    ultimately show ?thesis unfolding eq using q Some by (simp add: truthy_def)
  qed
qed

lemma joined_sums_le:
  fixes w :: "transaction \<Rightarrow> rat"
  assumes d: "distinct (map course.id cs)" and ne: "[] \<notin> course.id ` set cs"
    and w: "\<And>t. 0 \<le> w t"
  shows "(\<Sum>c\<leftarrow>cs. \<Sum>t\<leftarrow>filter (\<lambda>t. transaction.courseId t = Some (course.id c) \<and>
            transaction.type t = ''charge'' \<and> transaction.status t = ''completed'') ts. w t)
     \<le> (\<Sum>t\<leftarrow>filter (\<lambda>t. transaction.type t = ''charge'' \<and> transaction.status t = ''completed''
            \<and> truthy (transaction.courseId t)) ts. w t)"
proof -
  have l: "(\<Sum>c\<leftarrow>cs. \<Sum>t\<leftarrow>filter (\<lambda>t. transaction.courseId t = Some (course.id c) \<and>
            transaction.type t = ''charge'' \<and> transaction.status t = ''completed'') ts. w t) =
      (\<Sum>t\<leftarrow>ts. w t * of_nat (length (filter (\<lambda>c.
        transaction.courseId t = Some (course.id c) \<and> transaction.type t = ''charge'' \<and>
        transaction.status t = ''completed'') cs)))"
    by (rule sum_list_filter_swap)
  have r: "(\<Sum>t\<leftarrow>filter (\<lambda>t. transaction.type t = ''charge'' \<and> transaction.status t = ''completed''
            \<and> truthy (transaction.courseId t)) ts. w t) =
      (\<Sum>t\<leftarrow>ts. if transaction.type t = ''charge'' \<and> transaction.status t = ''completed''
        \<and> truthy (transaction.courseId t) then w t else 0)"
    by (rule sum_list_map_filter')
  show ?thesis
    unfolding l r by (rule sum_list_mono) (rule joined_term_le [OF d ne w])
qed

lemma joined_sums_eq:
  fixes w :: "transaction \<Rightarrow> rat"
  assumes d: "distinct (map course.id cs)" and ne: "[] \<notin> course.id ` set cs"
    and ref: "\<forall>t \<in> set ts. transaction.type t = ''charge'' \<and> transaction.status t = ''completed'' \<longrightarrow>
       (\<forall>k. transaction.courseId t = Some k \<longrightarrow> k \<in> course.id ` set cs)"
  shows "(\<Sum>c\<leftarrow>cs. \<Sum>t\<leftarrow>filter (\<lambda>t. transaction.courseId t = Some (course.id c) \<and>
            transaction.type t = ''charge'' \<and> transaction.status t = ''completed'') ts. w t)
     = (\<Sum>t\<leftarrow>filter (\<lambda>t. transaction.type t = ''charge'' \<and> transaction.status t = ''completed''
            \<and> truthy (transaction.courseId t)) ts. w t)"
proof -
  have l: "(\<Sum>c\<leftarrow>cs. \<Sum>t\<leftarrow>filter (\<lambda>t. transaction.courseId t = Some (course.id c) \<and>
            transaction.type t = ''charge'' \<and> transaction.status t = ''completed'') ts. w t) =
      (\<Sum>t\<leftarrow>ts. w t * of_nat (length (filter (\<lambda>c.
        transaction.courseId t = Some (course.id c) \<and> transaction.type t = ''charge'' \<and>
        transaction.status t = ''completed'') cs)))"
    by (rule sum_list_filter_swap)
  have r: "(\<Sum>t\<leftarrow>filter (\<lambda>t. transaction.type t = ''charge'' \<and> transaction.status t = ''completed''
            \<and> truthy (transaction.courseId t)) ts. w t) =
      (\<Sum>t\<leftarrow>ts. if transaction.type t = ''charge'' \<and> transaction.status t = ''completed''
        \<and> truthy (transaction.courseId t) then w t else 0)"
    by (rule sum_list_map_filter')
  show ?thesis
    unfolding l r
    by (rule arg_cong [where f = sum_list], rule map_cong [OF refl])
       (rule joined_term_eq [OF d ne], use ref in blast)
qed

section \<open>Per-course revenue\<close>

text \<open>
  C1 (as the code has it). The revenue of every row of the aggregator is the sum, taken in
  double arithmetic from left to right and starting at zero, of the absolute amounts of the
  transactions whose \<^verbatim>\<open>courseId\<close> is the course's id, whose type is \<^verbatim>\<open>charge\<close> and whose
  status is \<^verbatim>\<open>completed\<close>, in the order of the collection; no other transaction takes part
  in it. A further completed charge of the course with amount \<open>-75\<close> enters this sum as
  \<open>75\<close>, and as the only transaction it gives the revenue \<open>75\<close>. When every amount is a
  whole number and the absolute amounts total less than \<open>2^53\<close>, no addition rounds and the
  revenue is the exact sum.
\<close>

theorem courseStats_totalRevenue:
  "map course_stats.totalRevenue (courseStats cs es ts) =
     map (\<lambda>c. foldl dadd (Fin 0) (map (\<lambda>t. Math_abs (transaction.amount t))
            (filter (\<lambda>t. transaction.courseId t = Some (course.id c) \<and>
               transaction.type t = ''charge'' \<and> transaction.status t = ''completed'') ts))) cs
   \<and> map course_stats.totalRevenue
        (courseStats [c] es
           (ts @ [\<lparr> transaction.id = tid, courseId = Some (course.id c), type = ''charge'',
                    status = ''completed'', amount = Fin (- 75) \<rparr>])) =
     map (\<lambda>r. dadd r (Fin 75)) (map course_stats.totalRevenue (courseStats [c] es ts))
   \<and> map course_stats.totalRevenue
        (courseStats [c] es
           [\<lparr> transaction.id = tid, courseId = Some (course.id c), type = ''charge'',
              status = ''completed'', amount = Fin (- 75) \<rparr>]) = [Fin 75]
   \<and> ((\<forall>t \<in> set ts. whole (transaction.amount t)) \<and>
        (\<Sum>t\<leftarrow>ts. \<bar>num_val (transaction.amount t)\<bar>) < 2 ^ 53 \<longrightarrow>
        map course_stats.totalRevenue (courseStats cs es ts) =
          map (\<lambda>c. Fin (\<Sum>t\<leftarrow>filter (\<lambda>t. transaction.courseId t = Some (course.id c) \<and>
                  transaction.type t = ''charge'' \<and> transaction.status t = ''completed'') ts.
                \<bar>num_val (transaction.amount t)\<bar>)) cs)"
proof (intro conjI impI)
  show "map course_stats.totalRevenue (courseStats cs es ts) =
     map (\<lambda>c. foldl dadd (Fin 0) (map (\<lambda>t. Math_abs (transaction.amount t))
            (filter (\<lambda>t. transaction.courseId t = Some (course.id c) \<and>
               transaction.type t = ''charge'' \<and> transaction.status t = ''completed'') ts))) cs"
    by (simp add: courseStats_def stats_of_totalRevenue)
  show "map course_stats.totalRevenue
        (courseStats [c] es
           (ts @ [\<lparr> transaction.id = tid, courseId = Some (course.id c), type = ''charge'',
                    status = ''completed'', amount = Fin (- 75) \<rparr>])) =
     map (\<lambda>r. dadd r (Fin 75)) (map course_stats.totalRevenue (courseStats [c] es ts))"
    by (simp add: courseStats_def stats_of_totalRevenue)
  have "dadd (Fin 0) (Fin 75) = Fin 75"
    using dadd_whole [of 0 75] by simp
  then show "map course_stats.totalRevenue
        (courseStats [c] es
           [\<lparr> transaction.id = tid, courseId = Some (course.id c), type = ''charge'',
              status = ''completed'', amount = Fin (- 75) \<rparr>]) = [Fin 75]"
    by (simp add: courseStats_def stats_of_totalRevenue)
next
  assume "(\<forall>t \<in> set ts. whole (transaction.amount t)) \<and>
        (\<Sum>t\<leftarrow>ts. \<bar>num_val (transaction.amount t)\<bar>) < 2 ^ 53"
  then have w: "\<forall>t \<in> set ts. whole (transaction.amount t)"
    and b: "(\<Sum>t\<leftarrow>ts. \<bar>num_val (transaction.amount t)\<bar>) < 2 ^ 53" by simp_all
  show "map course_stats.totalRevenue (courseStats cs es ts) =
          map (\<lambda>c. Fin (\<Sum>t\<leftarrow>filter (\<lambda>t. transaction.courseId t = Some (course.id c) \<and>
                  transaction.type t = ''charge'' \<and> transaction.status t = ''completed'') ts.
                \<bar>num_val (transaction.amount t)\<bar>)) cs"
    by (simp add: courseStats_def stats_of_totalRevenue revenue_exact [OF w b])
qed

theorem courseStats_totalRevenue_witness:
  "list_all (\<lambda>t. whole (transaction.amount t)) intro_transactions
   \<and> (\<Sum>t\<leftarrow>intro_transactions. \<bar>num_val (transaction.amount t)\<bar>) = 75
   \<and> map course_stats.totalRevenue
       (courseStats [intro_course] intro_enrolments intro_transactions) = [Fin 75]"
proof -
  have w: "\<forall>t \<in> set intro_transactions. whole (transaction.amount t)"
    by (simp add: intro_transactions_def)
  have s: "(\<Sum>t\<leftarrow>intro_transactions. \<bar>num_val (transaction.amount t)\<bar>) = 75"
    by (simp add: intro_transactions_def)
  have h: "(\<forall>t \<in> set intro_transactions. whole (transaction.amount t)) \<and>
        (\<Sum>t\<leftarrow>intro_transactions. \<bar>num_val (transaction.amount t)\<bar>) < 2 ^ 53"
    using w s by simp
  note r = courseStats_totalRevenue [of "[intro_course]" intro_enrolments intro_transactions,
      THEN conjunct2, THEN conjunct2, THEN conjunct2, THEN mp, OF h]
  have v: "map course_stats.totalRevenue
       (courseStats [intro_course] intro_enrolments intro_transactions) = [Fin 75]"
    unfolding r by (simp add: intro_transactions_def intro_course_def)
  have l: "list_all (\<lambda>t. whole (transaction.amount t)) intro_transactions"
    using w by (simp only: list_all_iff)
  show ?thesis by (intro conjI l s v)
qed

text \<open>
  With the two completed charges \<^verbatim>\<open>0.1\<close> and \<^verbatim>\<open>0.2\<close> the revenue is
  \<^verbatim>\<open>0.30000000000000004\<close>, which is not the sum of the two amounts.
\<close>

theorem courseStats_totalRevenue_rounds:
  "map course_stats.totalRevenue (courseStats [intro_course] [] tenth_fifth) =
     [Fin (1351079888211149 / 4503599627370496)]
   \<and> (\<Sum>t\<leftarrow>tenth_fifth. \<bar>num_val (transaction.amount t)\<bar>) =
     10808639105689191 / 36028797018963968
   \<and> (1351079888211149 / 4503599627370496 :: rat) \<noteq> 10808639105689191 / 36028797018963968"
  by code_simp

section \<open>The CSV text\<close>

text \<open>
  C2 (as the code has it). In the \<^verbatim>\<open>csv\<close> export the lines are joined by a newline. The
  first line is the ten header names joined by commas, without quotes. Every further line
  belongs to one filtered row: its ten cells joined by commas, each cell, textual or numeric,
  between two double quotes, and the cell text copied as it is, embedded quotes and commas
  included.
\<close>

theorem csv_export_layout:
  "content (handleExport numStr now filtered csv) =
     join [CHR 0x0A]
       (''Course Code,Course Name,Provider,Monthly Fee,Status,Total Enrolments,Active Enrolments,Total Revenue,Start Date,End Date'' #
        map (\<lambda>c.
          [CHR 0x22] @ course.code c @ [CHR 0x22] @ '','' @
          [CHR 0x22] @ course.name c @ [CHR 0x22] @ '','' @
          [CHR 0x22] @ course.provider c @ [CHR 0x22] @ '','' @
          [CHR 0x22] @ numStr (course.monthlyFee c) @ [CHR 0x22] @ '','' @
          [CHR 0x22] @ (if course.isActive c then ''Active'' else ''Inactive'') @ [CHR 0x22] @ '','' @
          [CHR 0x22] @ numStr (Fin (of_nat (course_stats.totalEnrolments c))) @ [CHR 0x22] @ '','' @
          [CHR 0x22] @ numStr (Fin (of_nat (course_stats.activeEnrolments c))) @ [CHR 0x22] @ '','' @
          [CHR 0x22] @ numStr (course_stats.totalRevenue c) @ [CHR 0x22] @ '','' @
          [CHR 0x22] @ (case course.startDate c of None \<Rightarrow> [] | Some d \<Rightarrow> d) @ [CHR 0x22] @ '','' @
          [CHR 0x22] @ (case course.endDate c of None \<Rightarrow> [] | Some d \<Rightarrow> d) @ [CHR 0x22])
          filtered)"
  by (simp add: handleExport_def csvContent_def headers_def rows_def row_of_def or_empty_def comp_def)

text \<open>
  The header line of an export carries no double quote at all: the claim that header cells
  are wrapped in quotes fails on the export of an empty table.
\<close>

theorem csv_header_unquoted:
  "content (handleExport wholeStr export_time [] csv) =
     ''Course Code,Course Name,Provider,Monthly Fee,Status,Total Enrolments,Active Enrolments,Total Revenue,Start Date,End Date''
   \<and> CHR 0x22 \<notin> set (content (handleExport wholeStr export_time [] csv))"
  by (simp add: handleExport_def csvContent_def headers_def rows_def)

text \<open>The export of one course without enrolments or transactions.\<close>

lemma csv_export_intro_course:
  "content (handleExport wholeStr export_time (courseStats [intro_course] [] []) csv) =
     ''Course Code,Course Name,Provider,Monthly Fee,Status,Total Enrolments,Active Enrolments,Total Revenue,Start Date,End Date'' @
     [CHR 0x0A, CHR 0x22] @ ''C1'' @ [CHR 0x22] @ '','' @ [CHR 0x22] @ ''Intro'' @ [CHR 0x22] @ '','' @
     [CHR 0x22] @ ''Acme'' @ [CHR 0x22] @ '','' @ [CHR 0x22] @ ''100'' @ [CHR 0x22] @ '','' @
     [CHR 0x22] @ ''Active'' @ [CHR 0x22] @ '','' @ [CHR 0x22] @ ''0'' @ [CHR 0x22] @ '','' @
     [CHR 0x22] @ ''0'' @ [CHR 0x22] @ '','' @ [CHR 0x22] @ ''0'' @ [CHR 0x22] @ '','' @
     [CHR 0x22, CHR 0x22] @ '','' @ [CHR 0x22, CHR 0x22]"
  by (simp add: handleExport_def csvContent_def headers_def rows_def row_of_def or_empty_def
      courseStats_def stats_of_def Let_def intro_course_def course.defs course_stats.defs)

section \<open>Overall statistics are unfiltered\<close>

text \<open>
  C3 (as the code has it). The overall statistics are the course count, the active course
  count, the enrolment count, the active enrolment count, and the sum, taken in double
  arithmetic from left to right and starting at zero, of the absolute amounts of the completed
  charges whose \<^verbatim>\<open>courseId\<close> is neither absent nor the empty string, all over the
  unfiltered collections. They are the same for every status and provider filter. For the
  two courses of the summary scenario they are \<open>2, 1, 2, 2, 50\<close>. When every amount is a
  whole number and the absolute amounts total less than \<open>2^53\<close>, the revenue is the exact
  sum.
\<close>

theorem overallStats_unfiltered:
  "statCards (CoursesReportPage cs es ts sf pf) =
     \<lparr> totalCourses = length cs,
       activeCourses = length (filter course.isActive cs),
       totalEnrolments = length es,
       activeEnrolments = length (filter enrolment.isActive es),
       totalRevenue =
         foldl dadd (Fin 0) (map (\<lambda>t. Math_abs (transaction.amount t))
           (filter (\<lambda>t. transaction.type t = ''charge'' \<and> transaction.status t = ''completed'' \<and>
              transaction.courseId t \<noteq> None \<and> transaction.courseId t \<noteq> Some []) ts)) \<rparr>
   \<and> statCards (CoursesReportPage cs es ts sf pf) = statCards (CoursesReportPage cs es ts sf' pf')
   \<and> statCards (CoursesReportPage [intro_course, second_course] summary_enrolments
        summary_transactions sf pf) =
     \<lparr> totalCourses = 2, activeCourses = 1, totalEnrolments = 2, activeEnrolments = 2,
       totalRevenue = Fin 50 \<rparr>
   \<and> ((\<forall>t \<in> set ts. whole (transaction.amount t)) \<and>
        (\<Sum>t\<leftarrow>ts. \<bar>num_val (transaction.amount t)\<bar>) < 2 ^ 53 \<longrightarrow>
        overall_stats.totalRevenue (statCards (CoursesReportPage cs es ts sf pf)) =
          Fin (\<Sum>t\<leftarrow>filter (\<lambda>t. transaction.type t = ''charge'' \<and>
                  transaction.status t = ''completed'' \<and> transaction.courseId t \<noteq> None \<and>
                  transaction.courseId t \<noteq> Some []) ts.
                \<bar>num_val (transaction.amount t)\<bar>))"
proof (intro conjI impI)
  show "statCards (CoursesReportPage cs es ts sf pf) =
     \<lparr> totalCourses = length cs,
       activeCourses = length (filter course.isActive cs),
       totalEnrolments = length es,
       activeEnrolments = length (filter enrolment.isActive es),
       totalRevenue =
         foldl dadd (Fin 0) (map (\<lambda>t. Math_abs (transaction.amount t))
           (filter (\<lambda>t. transaction.type t = ''charge'' \<and> transaction.status t = ''completed'' \<and>
              transaction.courseId t \<noteq> None \<and> transaction.courseId t \<noteq> Some []) ts)) \<rparr>"
    by (simp add: CoursesReportPage_def Let_def overallStats_def foldl_map truthy_iff)
  show "statCards (CoursesReportPage cs es ts sf pf) =
     statCards (CoursesReportPage cs es ts sf' pf')"
    by (simp add: CoursesReportPage_def Let_def)
  have "dadd (Fin 0) (Fin 50) = Fin 50"
    using dadd_whole [of 0 50] by simp
  then show "statCards (CoursesReportPage [intro_course, second_course] summary_enrolments
        summary_transactions sf pf) =
     \<lparr> totalCourses = 2, activeCourses = 1, totalEnrolments = 2, activeEnrolments = 2,
       totalRevenue = Fin 50 \<rparr>"
    by (simp add: CoursesReportPage_def Let_def overallStats_def intro_course_def
        second_course_def summary_enrolments_def summary_transactions_def truthy_def)
next
  assume "(\<forall>t \<in> set ts. whole (transaction.amount t)) \<and>
        (\<Sum>t\<leftarrow>ts. \<bar>num_val (transaction.amount t)\<bar>) < 2 ^ 53"
  then have w: "\<forall>t \<in> set ts. whole (transaction.amount t)"
    and b: "(\<Sum>t\<leftarrow>ts. \<bar>num_val (transaction.amount t)\<bar>) < 2 ^ 53" by simp_all
  have f: "filter (\<lambda>t. transaction.type t = ''charge'' \<and> transaction.status t = ''completed''
            \<and> truthy (transaction.courseId t)) ts =
      filter (\<lambda>t. transaction.type t = ''charge'' \<and>
                  transaction.status t = ''completed'' \<and> transaction.courseId t \<noteq> None \<and>
                  transaction.courseId t \<noteq> Some []) ts"
    by (simp add: truthy_iff)
  have "overall_stats.totalRevenue (overallStats cs es ts) =
      Fin (\<Sum>t\<leftarrow>filter (\<lambda>t. transaction.type t = ''charge'' \<and> transaction.status t = ''completed''
            \<and> truthy (transaction.courseId t)) ts. \<bar>num_val (transaction.amount t)\<bar>)"
    by (simp add: overallStats_totalRevenue revenue_exact [OF w b])
  then show "overall_stats.totalRevenue (statCards (CoursesReportPage cs es ts sf pf)) =
          Fin (\<Sum>t\<leftarrow>filter (\<lambda>t. transaction.type t = ''charge'' \<and>
                  transaction.status t = ''completed'' \<and> transaction.courseId t \<noteq> None \<and>
                  transaction.courseId t \<noteq> Some []) ts.
                \<bar>num_val (transaction.amount t)\<bar>)"
    unfolding f by (simp add: CoursesReportPage_def Let_def)
qed

theorem overallStats_unfiltered_witness:
  "list_all (\<lambda>t. whole (transaction.amount t)) summary_transactions
   \<and> (\<Sum>t\<leftarrow>summary_transactions. \<bar>num_val (transaction.amount t)\<bar>) = 50
   \<and> overall_stats.totalRevenue (statCards (CoursesReportPage [intro_course, second_course]
        summary_enrolments summary_transactions ''active'' ''Acme'')) = Fin 50"
proof -
  have w: "\<forall>t \<in> set summary_transactions. whole (transaction.amount t)"
    by (simp add: summary_transactions_def)
  have s: "(\<Sum>t\<leftarrow>summary_transactions. \<bar>num_val (transaction.amount t)\<bar>) = 50"
    by (simp add: summary_transactions_def)
  have h: "(\<forall>t \<in> set summary_transactions. whole (transaction.amount t)) \<and>
        (\<Sum>t\<leftarrow>summary_transactions. \<bar>num_val (transaction.amount t)\<bar>) < 2 ^ 53"
    using w s by simp
  note r = overallStats_unfiltered [of "[intro_course, second_course]" summary_enrolments
      summary_transactions "''active''" "''Acme''",
      THEN conjunct2, THEN conjunct2, THEN conjunct2, THEN mp, OF h]
  have v: "overall_stats.totalRevenue (statCards (CoursesReportPage [intro_course, second_course]
        summary_enrolments summary_transactions ''active'' ''Acme'')) = Fin 50"
    unfolding r by (simp add: summary_transactions_def)
  have l: "list_all (\<lambda>t. whole (transaction.amount t)) summary_transactions"
    using w by (simp only: list_all_iff)
  show ?thesis by (intro conjI l s v)
qed

text \<open>
  A completed charge whose \<^verbatim>\<open>courseId\<close> is the empty string has a non-null
  \<^verbatim>\<open>courseId\<close>, but the truthiness test leaves it out of the overall revenue. And the
  completed charges \<^verbatim>\<open>0.1\<close>, \<^verbatim>\<open>-0.2\<close>, \<^verbatim>\<open>0.3\<close> give the overall revenue
  \<^verbatim>\<open>0.6000000000000001\<close>, which is not the sum of their absolute amounts.
\<close>

theorem overallStats_blank_courseId:
  "overall_stats.totalRevenue
     (statCards (CoursesReportPage [] [] [blank_id_charge] ''all'' ''all'')) = Fin 0
   \<and> transaction.courseId blank_id_charge \<noteq> None
   \<and> foldl dadd (Fin 0) (map (\<lambda>t. Math_abs (transaction.amount t))
        (filter (\<lambda>t. transaction.type t = ''charge'' \<and> transaction.status t = ''completed'' \<and>
           transaction.courseId t \<noteq> None) [blank_id_charge])) = Fin 50
   \<and> overall_stats.totalRevenue
       (statCards (CoursesReportPage [intro_course] [] three_tenths ''all'' ''all'')) =
       Fin (1351079888211149 / 2251799813685248)
   \<and> (\<Sum>t\<leftarrow>three_tenths. \<bar>num_val (transaction.amount t)\<bar>) =
       21617278211378381 / 36028797018963968
   \<and> (1351079888211149 / 2251799813685248 :: rat) \<noteq> 21617278211378381 / 36028797018963968"
  by code_simp

section \<open>Filter semantics\<close>

text \<open>
  C4. The filter keeps, in the original order, the rows that pass both tests. With status
  \<^verbatim>\<open>all\<close> every row passes the status test, with \<^verbatim>\<open>active\<close> the active rows, with
  \<^verbatim>\<open>inactive\<close> the inactive ones; with provider \<^verbatim>\<open>all\<close> every row passes the provider
  test, otherwise the rows whose provider is the selected string. The result is a
  subsequence of the input for every selection.
\<close>

theorem filteredCourses_subsequence:
  "filteredCourses stats ''all'' pf =
     filter (\<lambda>c. if pf = ''all'' then True else course.provider c = pf) stats
   \<and> filteredCourses stats ''active'' pf =
     filter (\<lambda>c. course.isActive c \<and> (if pf = ''all'' then True else course.provider c = pf)) stats
   \<and> filteredCourses stats ''inactive'' pf =
     filter (\<lambda>c. \<not> course.isActive c \<and> (if pf = ''all'' then True else course.provider c = pf))
       stats
   \<and> subseq (filteredCourses stats sf pf) stats"
  unfolding filteredCourses_def Let_def
  by (intro conjI filter_cong refl subseq_filter_left) auto

section \<open>The filtered summary\<close>

text \<open>
  C5 (as the code has it). The table shows the rows the filter returns, and the footer is
  the number of these rows, the sum of their active enrolments, and the sum of their revenues
  taken in double arithmetic from left to right and starting at zero. When no course passes
  both the status test and the provider test, the table is the empty list and the footer is
  zero rows, zero active enrolments and zero revenue. When the revenues of the filtered rows
  are whole numbers that total less than \<open>2^53\<close>, the footer's revenue is their exact sum.
\<close>

theorem footer_over_filtered:
  "tableRows (CoursesReportPage cs es ts sf pf) = filteredCourses (courseStats cs es ts) sf pf
   \<and> footer (CoursesReportPage cs es ts sf pf) =
       (length (filteredCourses (courseStats cs es ts) sf pf),
        sum_list (map course_stats.activeEnrolments (filteredCourses (courseStats cs es ts) sf pf)),
        foldl dadd (Fin 0)
          (map course_stats.totalRevenue (filteredCourses (courseStats cs es ts) sf pf)))
   \<and> ((\<forall>c \<in> set cs. \<not> ((sf = ''all'' \<or> (sf = ''active'' \<and> course.isActive c) \<or>
                           (sf = ''inactive'' \<and> \<not> course.isActive c)) \<and>
                          (pf = ''all'' \<or> course.provider c = pf))) \<longrightarrow>
        tableRows (CoursesReportPage cs es ts sf pf) = [] \<and>
        footer (CoursesReportPage cs es ts sf pf) = (0, 0, Fin 0))
   \<and> ((\<forall>r \<in> set (filteredCourses (courseStats cs es ts) sf pf).
           whole (course_stats.totalRevenue r)) \<and>
        (\<Sum>r\<leftarrow>filteredCourses (courseStats cs es ts) sf pf.
           num_val (course_stats.totalRevenue r)) < 2 ^ 53 \<longrightarrow>
        snd (snd (footer (CoursesReportPage cs es ts sf pf))) =
          Fin (\<Sum>r\<leftarrow>filteredCourses (courseStats cs es ts) sf pf.
                 num_val (course_stats.totalRevenue r)))"
proof (intro conjI)
  show "tableRows (CoursesReportPage cs es ts sf pf) = filteredCourses (courseStats cs es ts) sf pf"
    by (simp add: CoursesReportPage_def Let_def)
  show ft: "footer (CoursesReportPage cs es ts sf pf) =
       (length (filteredCourses (courseStats cs es ts) sf pf),
        sum_list (map course_stats.activeEnrolments (filteredCourses (courseStats cs es ts) sf pf)),
        foldl dadd (Fin 0)
          (map course_stats.totalRevenue (filteredCourses (courseStats cs es ts) sf pf)))"
    by (simp add: CoursesReportPage_def Let_def summaryFooter_def foldl_add_sum_list foldl_map)
  show "(\<forall>c \<in> set cs. \<not> ((sf = ''all'' \<or> (sf = ''active'' \<and> course.isActive c) \<or>
                           (sf = ''inactive'' \<and> \<not> course.isActive c)) \<and>
                          (pf = ''all'' \<or> course.provider c = pf))) \<longrightarrow>
        tableRows (CoursesReportPage cs es ts sf pf) = [] \<and>
        footer (CoursesReportPage cs es ts sf pf) = (0, 0, Fin 0)"
  proof
    assume none: "\<forall>c \<in> set cs. \<not> ((sf = ''all'' \<or> (sf = ''active'' \<and> course.isActive c) \<or>
                           (sf = ''inactive'' \<and> \<not> course.isActive c)) \<and>
                          (pf = ''all'' \<or> course.provider c = pf))"
    then have "filter (\<lambda>c. (sf = ''all'' \<or> (sf = ''active'' \<and> course.isActive c) \<or>
                  (sf = ''inactive'' \<and> \<not> course.isActive c)) \<and>
                 (pf = ''all'' \<or> course.provider c = pf)) cs = []"
      by (simp only: filter_empty_conv)
    then have "filteredCourses (courseStats cs es ts) sf pf = []"
      by (simp only: filteredCourses_courseStats list.map)
    then show "tableRows (CoursesReportPage cs es ts sf pf) = [] \<and>
        footer (CoursesReportPage cs es ts sf pf) = (0, 0, Fin 0)"
      by (simp add: CoursesReportPage_def Let_def summaryFooter_def)
  qed
  show "(\<forall>r \<in> set (filteredCourses (courseStats cs es ts) sf pf).
           whole (course_stats.totalRevenue r)) \<and>
        (\<Sum>r\<leftarrow>filteredCourses (courseStats cs es ts) sf pf.
           num_val (course_stats.totalRevenue r)) < 2 ^ 53 \<longrightarrow>
        snd (snd (footer (CoursesReportPage cs es ts sf pf))) =
          Fin (\<Sum>r\<leftarrow>filteredCourses (courseStats cs es ts) sf pf.
                 num_val (course_stats.totalRevenue r))"
  proof
    assume h: "(\<forall>r \<in> set (filteredCourses (courseStats cs es ts) sf pf).
           whole (course_stats.totalRevenue r)) \<and>
        (\<Sum>r\<leftarrow>filteredCourses (courseStats cs es ts) sf pf.
           num_val (course_stats.totalRevenue r)) < 2 ^ 53"
    let ?F = "filteredCourses (courseStats cs es ts) sf pf"
    have shape: "\<forall>d \<in> set (map course_stats.totalRevenue ?F). whole d \<and> nonneg d"
    proof
      fix d assume "d \<in> set (map course_stats.totalRevenue ?F)"
      then obtain r where r: "r \<in> set ?F" and d: "d = course_stats.totalRevenue r" by auto
      from r obtain c where c: "r = stats_of es ts c"
        by (auto simp: filteredCourses_courseStats)
      from h r have wh: "whole d" unfolding d by blast
      then have "d \<noteq> NaN" by (cases d) simp_all
      with stats_of_revenue_shape [of es ts c] have "nonneg d" unfolding d c by blast
      with wh show "whole d \<and> nonneg d" ..
    qed
    have s: "(\<Sum>d\<leftarrow>map course_stats.totalRevenue ?F. num_val d) =
        (\<Sum>r\<leftarrow>?F. num_val (course_stats.totalRevenue r))"
      by (simp add: comp_def)
    have "foldl dadd (Fin 0) (map course_stats.totalRevenue ?F) =
        Fin (num_val (Fin 0) + (\<Sum>d\<leftarrow>map course_stats.totalRevenue ?F. num_val d))"
    proof (rule foldl_dadd_exact [OF shape])
      show "whole (Fin 0)" "nonneg (Fin 0)" by simp_all
      show "num_val (Fin 0) + (\<Sum>d\<leftarrow>map course_stats.totalRevenue ?F. num_val d) < 2 ^ 53"
        unfolding s using h by simp
    qed
    then show "snd (snd (footer (CoursesReportPage cs es ts sf pf))) =
          Fin (\<Sum>r\<leftarrow>?F. num_val (course_stats.totalRevenue r))"
      unfolding ft s by simp
  qed
qed

theorem footer_over_filtered_witness:
  "list_all (\<lambda>c. \<not> course.isActive c) [second_course]
   \<and> tableRows (CoursesReportPage [second_course] summary_enrolments summary_transactions
        ''active'' ''all'') = []
   \<and> footer (CoursesReportPage [second_course] summary_enrolments summary_transactions
        ''active'' ''all'') = (0, 0, Fin 0)
   \<and> map course_stats.totalRevenue
       (filteredCourses (courseStats [intro_course, second_course] summary_enrolments
          summary_transactions) ''all'' ''all'') = [Fin 50, Fin 0]
   \<and> snd (snd (footer (CoursesReportPage [intro_course, second_course] summary_enrolments
        summary_transactions ''all'' ''all''))) = Fin 50"
proof -
  have h1: "\<forall>c \<in> set [second_course].
      \<not> ((''active'' = ''all'' \<or> (''active'' = ''active'' \<and> course.isActive c) \<or>
          (''active'' = ''inactive'' \<and> \<not> course.isActive c)) \<and>
         (''all'' = ''all'' \<or> course.provider c = ''all''))"
    by (simp add: second_course_def)
  note r1 = footer_over_filtered [of "[second_course]" summary_enrolments summary_transactions
      "''active''" "''all''", THEN conjunct2, THEN conjunct2, THEN conjunct1, THEN mp, OF h1]
  let ?F = "filteredCourses (courseStats [intro_course, second_course] summary_enrolments
        summary_transactions) ''all'' ''all''"
  have m: "map course_stats.totalRevenue ?F = [Fin 50, Fin 0]" by (rule summary_rows)
  have w: "\<forall>r \<in> set ?F. whole (course_stats.totalRevenue r)"
  proof
    fix r assume "r \<in> set ?F"
    then have "course_stats.totalRevenue r \<in> set (map course_stats.totalRevenue ?F)"
      by (rule imageI [of r "set ?F" course_stats.totalRevenue, unfolded set_map [symmetric]])
    then show "whole (course_stats.totalRevenue r)" unfolding m by auto
  qed
  have s: "(\<Sum>r\<leftarrow>?F. num_val (course_stats.totalRevenue r)) = 50"
  proof -
    have "(\<Sum>r\<leftarrow>?F. num_val (course_stats.totalRevenue r)) =
        sum_list (map num_val (map course_stats.totalRevenue ?F))"
      by (simp only: map_map comp_def)
    also have "\<dots> = 50" unfolding m by simp
    finally show ?thesis .
  qed
  have h2: "(\<forall>r \<in> set ?F. whole (course_stats.totalRevenue r)) \<and>
      (\<Sum>r\<leftarrow>?F. num_val (course_stats.totalRevenue r)) < 2 ^ 53"
    using w s by simp
  note r2 = footer_over_filtered [of "[intro_course, second_course]" summary_enrolments
      summary_transactions "''all''" "''all''",
      THEN conjunct2, THEN conjunct2, THEN conjunct2, THEN mp, OF h2]
  have v: "snd (snd (footer (CoursesReportPage [intro_course, second_course] summary_enrolments
        summary_transactions ''all'' ''all''))) = Fin 50"
    unfolding r2 s ..
  have l: "list_all (\<lambda>c. \<not> course.isActive c) [second_course]"
    by (simp add: second_course_def)
  show ?thesis
    by (intro conjI l r1 [THEN conjunct1] r1 [THEN conjunct2] m v)
qed

text \<open>
  With a completed charge \<^verbatim>\<open>0.1\<close> of one course and \<^verbatim>\<open>0.2\<close> of another, the two rows
  carry these revenues and the footer shows \<^verbatim>\<open>0.30000000000000004\<close>, which is not their
  sum.
\<close>

theorem footer_revenue_rounds:
  "map course_stats.totalRevenue
     (filteredCourses (courseStats [intro_course, second_course] [] split_charges)
        ''all'' ''all'') =
     [Fin (3602879701896397 / 36028797018963968), Fin (3602879701896397 / 18014398509481984)]
   \<and> footer (CoursesReportPage [intro_course, second_course] [] split_charges ''all'' ''all'') =
     (2, 0, Fin (1351079888211149 / 4503599627370496))
   \<and> (3602879701896397 / 36028797018963968 + 3602879701896397 / 18014398509481984 :: rat) \<noteq>
     1351079888211149 / 4503599627370496"
  by code_simp

section \<open>Invariants of the per-course statistics\<close>

text \<open>
  C6 (as the code has it). In every row of the aggregator the active enrolments are at most
  the total enrolments and both counts are at least zero. When no completed charge has the
  amount \<^verbatim>\<open>NaN\<close>, the revenue of every row is at least zero.
\<close>

theorem courseStats_bounds:
  "(\<forall>s \<in> set (courseStats cs es ts).
      course_stats.activeEnrolments s \<le> course_stats.totalEnrolments s \<and>
      0 \<le> course_stats.activeEnrolments s)
   \<and> ((\<forall>t \<in> set ts. transaction.type t = ''charge'' \<and> transaction.status t = ''completed'' \<longrightarrow>
          transaction.amount t \<noteq> NaN) \<longrightarrow>
       (\<forall>s \<in> set (courseStats cs es ts). dle (Fin 0) (course_stats.totalRevenue s)))"
proof (intro conjI impI ballI)
  fix s assume "s \<in> set (courseStats cs es ts)"
  then obtain c where s: "s = stats_of es ts c"
    by (auto simp: courseStats_def)
  show "course_stats.activeEnrolments s \<le> course_stats.totalEnrolments s"
    unfolding s stats_of_activeEnrolments stats_of_totalEnrolments by (rule length_filter_le)
  show "0 \<le> course_stats.activeEnrolments s" by simp
next
  fix s
  assume nn: "\<forall>t \<in> set ts. transaction.type t = ''charge'' \<and> transaction.status t = ''completed'' \<longrightarrow>
      transaction.amount t \<noteq> NaN"
    and "s \<in> set (courseStats cs es ts)"
  then obtain c where s: "s = stats_of es ts c"
    by (auto simp: courseStats_def)
  have "nonneg (course_stats.totalRevenue s)"
    unfolding s stats_of_totalRevenue
  proof (rule foldl_dadd_nonneg)
    show "nonneg (Fin 0)" by simp
    show "\<forall>d \<in> set (map (\<lambda>t. Math_abs (transaction.amount t))
        (filter (\<lambda>t. transaction.courseId t = Some (course.id c) \<and>
           transaction.type t = ''charge'' \<and> transaction.status t = ''completed'') ts)). nonneg d"
      using nn by (auto intro: Math_abs_nonneg)
  qed
  then show "dle (Fin 0) (course_stats.totalRevenue s)" by (rule nonneg_dle)
qed

theorem courseStats_bounds_witness:
  "list_all (\<lambda>t. transaction.amount t \<noteq> NaN) intro_transactions
   \<and> courseStats [intro_course] intro_enrolments intro_transactions \<noteq> []
   \<and> list_all (\<lambda>s. course_stats.activeEnrolments s \<le> course_stats.totalEnrolments s \<and>
        dle (Fin 0) (course_stats.totalRevenue s))
       (courseStats [intro_course] intro_enrolments intro_transactions)"
proof -
  have h: "\<forall>t \<in> set intro_transactions.
      transaction.type t = ''charge'' \<and> transaction.status t = ''completed'' \<longrightarrow>
      transaction.amount t \<noteq> NaN"
    by (simp add: intro_transactions_def)
  note r = courseStats_bounds [of "[intro_course]" intro_enrolments intro_transactions]
  note a = r [THEN conjunct1]
  note b = r [THEN conjunct2, THEN mp, OF h]
  have l: "list_all (\<lambda>t. transaction.amount t \<noteq> NaN) intro_transactions"
    by (simp add: intro_transactions_def)
  have n: "courseStats [intro_course] intro_enrolments intro_transactions \<noteq> []"
    by (simp add: courseStats_def)
  have "list_all (\<lambda>s. course_stats.activeEnrolments s \<le> course_stats.totalEnrolments s \<and>
        dle (Fin 0) (course_stats.totalRevenue s))
       (courseStats [intro_course] intro_enrolments intro_transactions)"
    unfolding list_all_iff using a b by blast
  with l n show ?thesis by (intro conjI)
qed

text \<open>
  A completed charge with the amount \<^verbatim>\<open>NaN\<close> makes the revenue of its course \<^verbatim>\<open>NaN\<close>,
  and \<^verbatim>\<open>NaN >= 0\<close> is false.
\<close>

theorem courseStats_revenue_NaN:
  "map course_stats.totalRevenue (courseStats [intro_course] [] nan_charge) = [NaN]
   \<and> \<not> dle (Fin 0) NaN"
  by (simp add: courseStats_def stats_of_totalRevenue nan_charge_def intro_course_def)

section \<open>Filter composition\<close>

text \<open>
  C7. Filtering by status \<^verbatim>\<open>active\<close> and provider \<open>X\<close> at once gives the same list as
  filtering by status \<^verbatim>\<open>active\<close> with provider \<^verbatim>\<open>all\<close> and then by status \<^verbatim>\<open>all\<close> with
  provider \<open>X\<close>.
\<close>

theorem filteredCourses_active_then_provider:
  "filteredCourses stats ''active'' X =
     filteredCourses (filteredCourses stats ''active'' ''all'') ''all'' X"
  unfolding filteredCourses_def Let_def filter_filter by (rule filter_cong) auto

section \<open>The provider list\<close>

text \<open>
  C8. The provider list holds exactly the provider values of the course collection, in
  ascending order and without duplicates.
\<close>

theorem providers_sorted_distinct:
  "set (providers cs) = course.provider ` set cs \<and> sorted (providers cs) \<and>
   distinct (providers cs)"
  by (simp add: providers_def new_Set_def set_foldl_set_add distinct_foldl_set_add)

section \<open>One row per course\<close>

text \<open>
  C9. The aggregator returns one row per course, in the order of the course collection, and
  the course part of the i-th row is the i-th course: dropping the three statistics from the
  rows gives back the course collection.
\<close>

theorem courseStats_frame:
  "length (courseStats cs es ts) = length cs \<and>
   map course.truncate (courseStats cs es ts) = cs"
  by (simp add: courseStats_def stats_of_truncate map_idI)

section \<open>Per-course sums against the overall statistics\<close>

text \<open>
  C10 (as the code has it). Let the course ids be pairwise distinct. The total enrolments
  of all rows sum to at most the overall total enrolments, with equality when every
  enrolment's \<^verbatim>\<open>courseId\<close> is the id of some course. If moreover no course has the empty
  string as its id, every amount is a whole number and the absolute amounts total less than
  \<open>2^53\<close>, then all revenues are finite, the revenues of all rows sum to at most the overall
  revenue, and to exactly the overall revenue when every completed charge's non-null
  \<^verbatim>\<open>courseId\<close> is the id of some course.
\<close>

theorem stats_sums_vs_overall:
  assumes d: "distinct (map course.id cs)"
  shows "sum_list (map course_stats.totalEnrolments (courseStats cs es ts))
           \<le> overall_stats.totalEnrolments (overallStats cs es ts)
   \<and> ((\<forall>e \<in> set es. enrolment.courseId e \<in> course.id ` set cs) \<longrightarrow>
        sum_list (map course_stats.totalEnrolments (courseStats cs es ts))
           = overall_stats.totalEnrolments (overallStats cs es ts))
   \<and> ([] \<notin> course.id ` set cs \<and> (\<forall>t \<in> set ts. whole (transaction.amount t)) \<and>
        (\<Sum>t\<leftarrow>ts. \<bar>num_val (transaction.amount t)\<bar>) < 2 ^ 53 \<longrightarrow>
        (\<forall>r \<in> set (courseStats cs es ts).
           course_stats.totalRevenue r = Fin (num_val (course_stats.totalRevenue r)))
        \<and> overall_stats.totalRevenue (overallStats cs es ts) =
            Fin (num_val (overall_stats.totalRevenue (overallStats cs es ts)))
        \<and> (\<Sum>r\<leftarrow>courseStats cs es ts. num_val (course_stats.totalRevenue r))
           \<le> num_val (overall_stats.totalRevenue (overallStats cs es ts))
        \<and> ((\<forall>t \<in> set ts. transaction.type t = ''charge'' \<and> transaction.status t = ''completed'' \<longrightarrow>
               (\<forall>k. transaction.courseId t = Some k \<longrightarrow> k \<in> course.id ` set cs)) \<longrightarrow>
             (\<Sum>r\<leftarrow>courseStats cs es ts. num_val (course_stats.totalRevenue r))
               = num_val (overall_stats.totalRevenue (overallStats cs es ts))))"
proof (intro conjI impI)
  have "sum_list (map (\<lambda>e. length (filter (\<lambda>c. course.id c = enrolment.courseId e) cs)) es)
      \<le> sum_list (map (\<lambda>e. Suc 0) es)"
    by (rule sum_list_mono) (rule id_count_le_1 [OF d])
  then show "sum_list (map course_stats.totalEnrolments (courseStats cs es ts))
           \<le> overall_stats.totalEnrolments (overallStats cs es ts)"
    by (simp add: enrolments_swap overallStats_def Let_def sum_list_triv)
next
  assume ref: "\<forall>e \<in> set es. enrolment.courseId e \<in> course.id ` set cs"
  have meq: "map (\<lambda>e. length (filter (\<lambda>c. course.id c = enrolment.courseId e) cs)) es
      = map (\<lambda>e. Suc 0) es"
    by (rule map_cong [OF refl]) (use ref in \<open>simp add: id_count_1 [OF d]\<close>)
  have "sum_list (map course_stats.totalEnrolments (courseStats cs es ts)) =
      sum_list (map (\<lambda>e. Suc 0) es)"
    unfolding enrolments_swap meq ..
  also have "\<dots> = length es" by (simp add: sum_list_triv)
  finally show "sum_list (map course_stats.totalEnrolments (courseStats cs es ts))
           = overall_stats.totalEnrolments (overallStats cs es ts)"
    by (simp add: overallStats_def Let_def)
next
  assume h: "[] \<notin> course.id ` set cs \<and> (\<forall>t \<in> set ts. whole (transaction.amount t)) \<and>
        (\<Sum>t\<leftarrow>ts. \<bar>num_val (transaction.amount t)\<bar>) < 2 ^ 53"
  then have ne: "[] \<notin> course.id ` set cs"
    and w: "\<forall>t \<in> set ts. whole (transaction.amount t)"
    and b: "(\<Sum>t\<leftarrow>ts. \<bar>num_val (transaction.amount t)\<bar>) < 2 ^ 53" by simp_all
  have rows: "map course_stats.totalRevenue (courseStats cs es ts) =
      map (\<lambda>c. Fin (\<Sum>t\<leftarrow>filter (\<lambda>t. transaction.courseId t = Some (course.id c) \<and>
            transaction.type t = ''charge'' \<and> transaction.status t = ''completed'') ts.
          \<bar>num_val (transaction.amount t)\<bar>)) cs"
    by (simp add: courseStats_def stats_of_totalRevenue revenue_exact [OF w b])
  have overall: "overall_stats.totalRevenue (overallStats cs es ts) =
      Fin (\<Sum>t\<leftarrow>filter (\<lambda>t. transaction.type t = ''charge'' \<and> transaction.status t = ''completed''
            \<and> truthy (transaction.courseId t)) ts. \<bar>num_val (transaction.amount t)\<bar>)"
    by (simp add: overallStats_totalRevenue revenue_exact [OF w b])
  have rsum: "(\<Sum>r\<leftarrow>courseStats cs es ts. num_val (course_stats.totalRevenue r)) =
      (\<Sum>c\<leftarrow>cs. \<Sum>t\<leftarrow>filter (\<lambda>t. transaction.courseId t = Some (course.id c) \<and>
            transaction.type t = ''charge'' \<and> transaction.status t = ''completed'') ts.
          \<bar>num_val (transaction.amount t)\<bar>)"
  proof -
    have "map num_val (map course_stats.totalRevenue (courseStats cs es ts)) =
        map (\<lambda>c. \<Sum>t\<leftarrow>filter (\<lambda>t. transaction.courseId t = Some (course.id c) \<and>
            transaction.type t = ''charge'' \<and> transaction.status t = ''completed'') ts.
          \<bar>num_val (transaction.amount t)\<bar>) cs"
      unfolding rows by (simp add: comp_def)
    then show ?thesis by (simp add: comp_def)
  qed
  show "\<forall>r \<in> set (courseStats cs es ts).
      course_stats.totalRevenue r = Fin (num_val (course_stats.totalRevenue r))"
  proof
    fix r assume "r \<in> set (courseStats cs es ts)"
    then obtain c where "r = stats_of es ts c" by (auto simp: courseStats_def)
    then show "course_stats.totalRevenue r = Fin (num_val (course_stats.totalRevenue r))"
      by (simp add: stats_of_totalRevenue revenue_exact [OF w b])
  qed
  show "overall_stats.totalRevenue (overallStats cs es ts) =
      Fin (num_val (overall_stats.totalRevenue (overallStats cs es ts)))"
    by (simp add: overall)
  show "(\<Sum>r\<leftarrow>courseStats cs es ts. num_val (course_stats.totalRevenue r))
      \<le> num_val (overall_stats.totalRevenue (overallStats cs es ts))"
    unfolding rsum overall num_val.simps
    by (rule joined_sums_le [OF d ne]) simp
  {
    assume ref: "\<forall>t \<in> set ts. transaction.type t = ''charge'' \<and> transaction.status t = ''completed'' \<longrightarrow>
        (\<forall>k. transaction.courseId t = Some k \<longrightarrow> k \<in> course.id ` set cs)"
    show "(\<Sum>r\<leftarrow>courseStats cs es ts. num_val (course_stats.totalRevenue r))
        = num_val (overall_stats.totalRevenue (overallStats cs es ts))"
      unfolding rsum overall num_val.simps
      by (rule joined_sums_eq [OF d ne ref])
  }
qed

theorem stats_sums_vs_overall_witness:
  "distinct (map course.id [intro_course, second_course])
   \<and> [] \<notin> course.id ` set [intro_course, second_course]
   \<and> list_all (\<lambda>e. enrolment.courseId e \<in> course.id ` set [intro_course, second_course])
        summary_enrolments
   \<and> list_all (\<lambda>t. transaction.courseId t = Some ''c1'' \<and> whole (transaction.amount t))
        summary_transactions
   \<and> (\<Sum>t\<leftarrow>summary_transactions. \<bar>num_val (transaction.amount t)\<bar>) = 50
   \<and> sum_list (map course_stats.totalEnrolments
        (courseStats [intro_course, second_course] summary_enrolments summary_transactions)) =
      overall_stats.totalEnrolments
        (overallStats [intro_course, second_course] summary_enrolments summary_transactions)
   \<and> (\<Sum>r\<leftarrow>courseStats [intro_course, second_course] summary_enrolments summary_transactions.
        num_val (course_stats.totalRevenue r)) =
      num_val (overall_stats.totalRevenue
        (overallStats [intro_course, second_course] summary_enrolments summary_transactions))
   \<and> overall_stats.totalEnrolments
        (overallStats [intro_course, second_course] summary_enrolments summary_transactions) = 2
   \<and> overall_stats.totalRevenue
        (overallStats [intro_course, second_course] summary_enrolments summary_transactions) =
      Fin 50"
proof -
  have d: "distinct (map course.id [intro_course, second_course])"
    by (simp add: intro_course_def second_course_def)
  have ne: "[] \<notin> course.id ` set [intro_course, second_course]"
    by (simp add: intro_course_def second_course_def)
  have re: "\<forall>e \<in> set summary_enrolments.
      enrolment.courseId e \<in> course.id ` set [intro_course, second_course]"
    by (simp add: summary_enrolments_def intro_course_def second_course_def)
  have rt: "\<forall>t \<in> set summary_transactions.
      transaction.type t = ''charge'' \<and> transaction.status t = ''completed'' \<longrightarrow>
      (\<forall>k. transaction.courseId t = Some k \<longrightarrow> k \<in> course.id ` set [intro_course, second_course])"
    by (simp add: summary_transactions_def intro_course_def second_course_def)
  have w: "\<forall>t \<in> set summary_transactions. whole (transaction.amount t)"
    by (simp add: summary_transactions_def)
  have s: "(\<Sum>t\<leftarrow>summary_transactions. \<bar>num_val (transaction.amount t)\<bar>) = 50"
    by (simp add: summary_transactions_def)
  have h: "[] \<notin> course.id ` set [intro_course, second_course] \<and>
      (\<forall>t \<in> set summary_transactions. whole (transaction.amount t)) \<and>
      (\<Sum>t\<leftarrow>summary_transactions. \<bar>num_val (transaction.amount t)\<bar>) < 2 ^ 53"
    using ne w s by simp
  have t1: "list_all (\<lambda>t. transaction.courseId t = Some ''c1'' \<and> whole (transaction.amount t))
      summary_transactions"
    by (simp add: summary_transactions_def)
  note r = stats_sums_vs_overall [OF d, of summary_enrolments summary_transactions]
  note r2 = r [THEN conjunct2]
  note enr = r2 [THEN conjunct1, THEN mp, OF re]
  note rv = r2 [THEN conjunct2, THEN mp, OF h]
  note rev = rv [THEN conjunct2, THEN conjunct2, THEN conjunct2, THEN mp, OF rt]
  have oe: "overall_stats.totalEnrolments
        (overallStats [intro_course, second_course] summary_enrolments summary_transactions) = 2"
    by (simp add: overallStats_def Let_def summary_enrolments_def)
  have "dadd (Fin 0) (Fin 50) = Fin 50"
    using dadd_whole [of 0 50] by simp
  then have orv: "overall_stats.totalRevenue
        (overallStats [intro_course, second_course] summary_enrolments summary_transactions) =
      Fin 50"
    by (simp add: overallStats_def Let_def summary_transactions_def truthy_def)
  have le: "list_all (\<lambda>e. enrolment.courseId e \<in> course.id ` set [intro_course, second_course])
        summary_enrolments"
    using re by (simp only: list_all_iff)
  show ?thesis
    by (intro conjI d ne le t1 s enr rev oe orv)
qed

text \<open>
  With a course whose id is the empty string, a completed charge carrying that id counts in
  the course's row and not in the overall revenue. And with distinct, non-empty ids the
  completed charges \<^verbatim>\<open>0.1\<close>, \<^verbatim>\<open>0.7\<close>, \<^verbatim>\<open>0.3\<close> of the first, the second and the first
  course give the rows \<^verbatim>\<open>0.4\<close> and \<^verbatim>\<open>0.7\<close>, whose sum, exact or rounded, exceeds the
  overall revenue \<^verbatim>\<open>1.0999999999999999\<close>.
\<close>

theorem stats_sums_blank_id:
  "distinct (map course.id [blank_id_course])
   \<and> map course_stats.totalRevenue (courseStats [blank_id_course] [] [blank_id_charge]) = [Fin 50]
   \<and> overall_stats.totalRevenue (overallStats [blank_id_course] [] [blank_id_charge]) = Fin 0
   \<and> distinct (map course.id [intro_course, second_course])
   \<and> [] \<notin> course.id ` set [intro_course, second_course]
   \<and> map course_stats.totalRevenue
       (courseStats [intro_course, second_course] [] interleaved_charges) =
       [Fin (3602879701896397 / 9007199254740992), Fin (3152519739159347 / 4503599627370496)]
   \<and> overall_stats.totalRevenue
       (overallStats [intro_course, second_course] [] interleaved_charges) =
       Fin (4953959590107545 / 4503599627370496)
   \<and> (4953959590107545 / 4503599627370496 :: rat) <
       3602879701896397 / 9007199254740992 + 3152519739159347 / 4503599627370496
   \<and> dadd (Fin (3602879701896397 / 9007199254740992))
        (Fin (3152519739159347 / 4503599627370496)) =
       Fin (2476979795053773 / 2251799813685248)
   \<and> (4953959590107545 / 4503599627370496 :: rat) < 2476979795053773 / 2251799813685248"
  by code_simp

end
